theory Spec2Isabelle
  imports Complex_Main
begin

section \<open>Values: errors, tensors, element arithmetic\<close>

text \<open>
  Every Python exception the two scripts can raise themselves is a constructor; a collaborator
  (diffusers, torch, the compiler toolchain, the runtime) may return any of them.
\<close>

datatype error =
    KeyError string
  | NameError string
  | TypeError
  | ValueError
  | RuntimeError
  | AssertionError

text \<open>
  A tensor is its shape and its elements in row-major order. The element type is a
  parameter: \<open>'a\<close> for latents and embeddings, \<open>'t\<close> for timesteps.
\<close>

datatype 'a tensor = Tensor (shape: "nat list") (data: "'a list")

definition wf_tensor :: "'a tensor \<Rightarrow> bool" where
  "wf_tensor x = (length (data x) = prod_list (shape x))"

text \<open>
  The element arithmetic of torch is left uninterpreted: no law (associativity,
  distributivity) is assumed of it, as none holds of single-precision floating point.
  \<open>of_float\<close> converts a Python float, here an exact rational, to an element.
\<close>

record 'a arith =
  fadd :: "'a \<Rightarrow> 'a \<Rightarrow> 'a"
  fsub :: "'a \<Rightarrow> 'a \<Rightarrow> 'a"
  fmul :: "'a \<Rightarrow> 'a \<Rightarrow> 'a"
  of_float :: "rat \<Rightarrow> 'a"

subsection \<open>The torch operations the loop uses\<close>

text \<open>\<open>chop n d xs\<close>: the first \<open>d\<close> consecutive blocks of \<open>n\<close> elements of \<open>xs\<close>.\<close>

fun chop :: "nat \<Rightarrow> nat \<Rightarrow> 'a list \<Rightarrow> 'a list list" where
  "chop n 0 xs = []"
| "chop n (Suc d) xs = take n xs # chop n d (drop n xs)"

text \<open>\<open>for t in x\<close>: the sub-tensors of \<open>x\<close> along its first axis; a 0-d tensor raises.\<close>

definition tensor_iter :: "'a tensor \<Rightarrow> error + 'a tensor list" where
  "tensor_iter x =
     (case shape x of
        [] \<Rightarrow> Inl TypeError
      | d # ds \<Rightarrow> Inr (map (Tensor ds) (chop (prod_list ds) d (data x))))"

text \<open>\<open>t.unsqueeze(0)\<close>\<close>

definition unsqueeze0 :: "'a tensor \<Rightarrow> 'a tensor" where
  "unsqueeze0 x = Tensor (1 # shape x) (data x)"

text \<open>
  \<open>torch.cat(xs)\<close> along axis 0: the list is not empty, no tensor is 0-d, and all agree
  on the other axes.
\<close>

fun torch_cat :: "'a tensor list \<Rightarrow> error + 'a tensor" where
  "torch_cat [] = Inl RuntimeError"
| "torch_cat (x # xs) =
     (case shape x of
        [] \<Rightarrow> Inl RuntimeError
      | d # ds \<Rightarrow>
          if list_all (\<lambda>y. shape y \<noteq> [] \<and> tl (shape y) = ds) xs
          then Inr (Tensor (sum_list (map (\<lambda>y. hd (shape y)) (x # xs)) # ds)
                           (concat (map data (x # xs))))
          else Inl RuntimeError)"

text \<open>
  \<open>x.chunk(n)\<close> along axis 0: pieces of \<open>ceil(d / n)\<close> rows, the last one shorter when
  \<open>d\<close> is not a multiple; \<open>n\<close> empty pieces when \<open>d = 0\<close>.
\<close>

definition chunk_sizes :: "nat \<Rightarrow> nat \<Rightarrow> nat list" where
  "chunk_sizes d n =
     (let split_size = (d + n - 1) div n in
      if split_size = 0 then replicate n 0
      else replicate (d div split_size) split_size @
           (if d mod split_size = 0 then [] else [d mod split_size]))"

fun split_with_sizes :: "nat list \<Rightarrow> nat list \<Rightarrow> 'a list \<Rightarrow> 'a tensor list" where
  "split_with_sizes [] ds xs = []"
| "split_with_sizes (k # ks) ds xs =
     Tensor (k # ds) (take (k * prod_list ds) xs) #
     split_with_sizes ks ds (drop (k * prod_list ds) xs)"

definition torch_chunk :: "'a tensor \<Rightarrow> nat \<Rightarrow> error + 'a tensor list" where
  "torch_chunk x n =
     (case shape x of
        [] \<Rightarrow> Inl RuntimeError
      | d # ds \<Rightarrow>
          if n = 0 then Inl RuntimeError
          else Inr (split_with_sizes (chunk_sizes d n) ds (data x)))"

text \<open>\<open>a, b = xs\<close>: unpacking anything but two values raises ValueError.\<close>

fun unpack2 :: "'b list \<Rightarrow> error + ('b \<times> 'b)" where
  "unpack2 [a, b] = Inr (a, b)"
| "unpack2 _ = Inl ValueError"

text \<open>
  Broadcasting of an elementwise binary operation: shapes are aligned at their last axis,
  an axis of size 1 is repeated, any other disagreement raises.
\<close>

fun broadcast_rev :: "nat list \<Rightarrow> nat list \<Rightarrow> nat list option" where
  "broadcast_rev [] ys = Some ys"
| "broadcast_rev (x # xs) [] = Some (x # xs)"
| "broadcast_rev (x # xs) (y # ys) =
     (if x = y \<or> y = 1 then map_option ((#) x) (broadcast_rev xs ys)
      else if x = 1 then map_option ((#) y) (broadcast_rev xs ys)
      else None)"

definition broadcast_shapes :: "nat list \<Rightarrow> nat list \<Rightarrow> nat list option" where
  "broadcast_shapes s1 s2 = map_option rev (broadcast_rev (rev s1) (rev s2))"

fun expand :: "nat list \<Rightarrow> nat list \<Rightarrow> 'a list \<Rightarrow> 'a list" where
  "expand (d # ds) (e # es) xs =
     (let ys = concat (map (expand ds es) (chop (prod_list ds) d xs)) in
      if d = e then ys else concat (replicate e ys))"
| "expand [] es xs = xs"
| "expand (d # ds) [] xs = xs"

definition expand_to :: "nat list \<Rightarrow> nat list \<Rightarrow> 'a list \<Rightarrow> 'a list" where
  "expand_to s target xs = expand (replicate (length target - length s) 1 @ s) target xs"

definition tensor_binop :: "('a \<Rightarrow> 'a \<Rightarrow> 'a) \<Rightarrow> 'a tensor \<Rightarrow> 'a tensor \<Rightarrow> error + 'a tensor" where
  "tensor_binop f x y =
     (case broadcast_shapes (shape x) (shape y) of
        None \<Rightarrow> Inl RuntimeError
      | Some s \<Rightarrow>
          Inr (Tensor s (map2 f (expand_to (shape x) s (data x))
                                (expand_to (shape y) s (data y)))))"

text \<open>\<open>x * c\<close> and \<open>c * x\<close> for a scalar \<open>c\<close>: the shape is kept.\<close>

definition tensor_mul_scalar :: "'a arith \<Rightarrow> 'a tensor \<Rightarrow> 'a \<Rightarrow> 'a tensor" where
  "tensor_mul_scalar A x c = Tensor (shape x) (map (\<lambda>v. fmul A v c) (data x))"

definition scalar_mul_tensor :: "'a arith \<Rightarrow> 'a \<Rightarrow> 'a tensor \<Rightarrow> 'a tensor" where
  "scalar_mul_tensor A c x = Tensor (shape x) (map (\<lambda>v. fmul A c v) (data x))"

section \<open>Effects: the world of the collaborators and the trace of calls\<close>

text \<open>
  The schedulers, the denoising network, the compiler and the runtime are not part of
  this repository. Their state is an abstract world \<open>'w\<close>; a call takes the world and
  returns a value or an exception, and the next world. Every call the scripts make into a
  collaborator is recorded, in program order, in a trace.
\<close>

datatype 't event =
    GetSchedulers string
  | SetTimesteps int
  | UnetFromPretrained string
  | GetInitNoiseSigma
  | GetTimesteps
  | ScaleModelInput "'t tensor"
  | UnetForward "'t tensor"
  | SchedulerStep "'t tensor"
  | SaveExternalWeights
  | ExportModule "int list" "int list" string
  | UploadToBlobStorage string
  | CompileToVmfb string
  | WriteFile string
  | Print
  | TorchRand "int list"
  | VmfbRunner string
  | AsDeviceArray
  | InvokeMain
  | ToHost
  | LargestError

record ('t, 'w) state =
  world :: 'w
  trace :: "'t event list"

type_synonym ('x, 't, 'w) prog = "('t, 'w) state \<Rightarrow> (error + 'x) \<times> ('t, 'w) state"

definition ret :: "'x \<Rightarrow> ('x, 't, 'w) prog" where
  "ret x = (\<lambda>s. (Inr x, s))"

definition raise :: "error \<Rightarrow> ('x, 't, 'w) prog" where
  "raise e = (\<lambda>s. (Inl e, s))"

definition lift :: "error + 'x \<Rightarrow> ('x, 't, 'w) prog" where
  "lift r = (\<lambda>s. (r, s))"

definition bind :: "('x, 't, 'w) prog \<Rightarrow> ('x \<Rightarrow> ('y, 't, 'w) prog) \<Rightarrow> ('y, 't, 'w) prog" where
  "bind m f = (\<lambda>s. case m s of (Inl e, s') \<Rightarrow> (Inl e, s') | (Inr x, s') \<Rightarrow> f x s')"

text \<open>A call into a collaborator: the event is recorded, then the collaborator runs.\<close>

definition call :: "'t event \<Rightarrow> ('w \<Rightarrow> (error + 'x) \<times> 'w) \<Rightarrow> ('x, 't, 'w) prog" where
  "call ev f = (\<lambda>s. case f (world s) of
                       (r, w') \<Rightarrow> (r, \<lparr>world = w', trace = trace s @ [ev]\<rparr>))"

text \<open>Reading an attribute of a collaborator: recorded, the world is not changed.\<close>

definition read :: "'t event \<Rightarrow> ('w \<Rightarrow> 'x) \<Rightarrow> ('x, 't, 'w) prog" where
  "read ev f = (\<lambda>s. (Inr (f (world s)), \<lparr>world = world s, trace = trace s @ [ev]\<rparr>))"

text \<open>The events a run added to the trace it started with.\<close>

definition new_events :: "('t, 'w) state \<Rightarrow> ('t, 'w) state \<Rightarrow> 't event list" where
  "new_events s s' = drop (length (trace s)) (trace s')"

section \<open>The collaborators\<close>

text \<open>
  A diffusers scheduler, by the capabilities the loop uses. \<open>step\<close> and
  \<open>scale_model_input\<close> may change the scheduler's own bookkeeping, which lives in the
  world.
\<close>

record ('a, 't, 'w) diffusers_scheduler =
  set_timesteps :: "int \<Rightarrow> 'w \<Rightarrow> (error + unit) \<times> 'w"
  init_noise_sigma :: "'w \<Rightarrow> 'a"
  timesteps :: "'w \<Rightarrow> 't tensor"
  scale_model_input :: "'a tensor \<Rightarrow> 't tensor \<Rightarrow> 'w \<Rightarrow> (error + 'a tensor) \<times> 'w"
  step :: "'a tensor \<Rightarrow> 't tensor \<Rightarrow> 'a tensor \<Rightarrow> 'w \<Rightarrow> (error + 'a tensor) \<times> 'w"

text \<open>\<open>UNet2DConditionModel.forward(sample, timestep, encoder_hidden_states)[0]\<close>\<close>

type_synonym ('a, 't, 'w) unet_model =
  "'a tensor \<Rightarrow> 't tensor \<Rightarrow> 'a tensor \<Rightarrow> 'w \<Rightarrow> (error + 'a tensor) \<times> 'w"

section \<open>schedulers.py: the exporter's sampling loop\<close>

record ('a, 't, 'w) Scheduler =
  scheduler :: "('a, 't, 'w) diffusers_scheduler"
  unet :: "('a, 't, 'w) unet_model"
  guidance_scale :: rat

text \<open>\<open>Scheduler.__init__\<close>\<close>

definition Scheduler_init ::
  "(string \<Rightarrow> 'w \<Rightarrow> (error + ('a, 't, 'w) unet_model) \<times> 'w) \<Rightarrow> string \<Rightarrow> int \<Rightarrow>
   ('a, 't, 'w) diffusers_scheduler \<Rightarrow> (('a, 't, 'w) Scheduler, 't, 'w) prog" where
  "Scheduler_init from_pretrained hf_model_name num_inference_steps sched =
     bind (call (SetTimesteps num_inference_steps) (set_timesteps sched num_inference_steps))
       (\<lambda>_. bind (call (UnetFromPretrained hf_model_name) (from_pretrained hf_model_name))
         (\<lambda>u. ret \<lparr>scheduler = sched, unet = u, guidance_scale = 15 / 2\<rparr>))"

text \<open>Lines 95 to 98: the two halves of the network's output and their combination.\<close>

definition guided_noise :: "'a arith \<Rightarrow> rat \<Rightarrow> 'a tensor \<Rightarrow> error + 'a tensor" where
  "guided_noise A g unet_out =
     (case torch_chunk unet_out 2 of
        Inl e \<Rightarrow> Inl e
      | Inr chunks \<Rightarrow>
          (case unpack2 chunks of
             Inl e \<Rightarrow> Inl e
           | Inr (noise_pred_uncond, noise_pred_text) \<Rightarrow>
               (case tensor_binop (fsub A) noise_pred_text noise_pred_uncond of
                  Inl e \<Rightarrow> Inl e
                | Inr diff \<Rightarrow>
                    tensor_binop (fadd A) noise_pred_uncond
                      (scalar_mul_tensor A (of_float A g) diff))))"

text \<open>One pass of the body of the \<open>for\<close> loop, lines 87 to 99.\<close>

definition forward_body ::
  "'a arith \<Rightarrow> ('a, 't, 'w) Scheduler \<Rightarrow> 't tensor \<Rightarrow> 'a tensor \<Rightarrow> 'a tensor \<Rightarrow>
   ('a tensor, 't, 'w) prog" where
  "forward_body A self t0 latents encoder_hidden_states =
     bind (lift (torch_cat (replicate 2 latents)))
       (\<lambda>latent_model_input.
     let t = unsqueeze0 t0 in
     bind (call (ScaleModelInput t) (scale_model_input (scheduler self) latent_model_input t))
       (\<lambda>latent_model_input.
     bind (call (UnetForward t) (unet self latent_model_input t encoder_hidden_states))
       (\<lambda>unet_out.
     bind (lift (guided_noise A (guidance_scale self) unet_out))
       (\<lambda>noise_pred.
     call (SchedulerStep t) (step (scheduler self) noise_pred t latents)))))"

fun forward_loop ::
  "'a arith \<Rightarrow> ('a, 't, 'w) Scheduler \<Rightarrow> 't tensor list \<Rightarrow> 'a tensor \<Rightarrow> 'a tensor \<Rightarrow>
   ('a tensor, 't, 'w) prog" where
  "forward_loop A self [] latents encoder_hidden_states = ret latents"
| "forward_loop A self (t # ts) latents encoder_hidden_states =
     bind (forward_body A self t latents encoder_hidden_states)
       (\<lambda>latents. forward_loop A self ts latents encoder_hidden_states)"

text \<open>\<open>Scheduler.forward\<close>, lines 84 to 100.\<close>

definition forward ::
  "'a arith \<Rightarrow> ('a, 't, 'w) Scheduler \<Rightarrow> 'a tensor \<Rightarrow> 'a tensor \<Rightarrow> ('a tensor, 't, 'w) prog" where
  "forward A self latents encoder_hidden_states =
     bind (read GetInitNoiseSigma (init_noise_sigma (scheduler self)))
       (\<lambda>sigma.
     let latents = tensor_mul_scalar A latents sigma in
     bind (read GetTimesteps (timesteps (scheduler self)))
       (\<lambda>ts.
     bind (lift (tensor_iter ts))
       (\<lambda>ts. forward_loop A self ts latents encoder_hidden_states)))"

section \<open>schedulers_runner.py: the eager reference loop\<close>

text \<open>
  \<open>run_torch_scheduler\<close> declares a class \<open>Scheduler\<close> of its own, with the same three
  fields; its constructor and its \<open>forward\<close> are translated from the runner's text.
\<close>

definition Scheduler_init_runner ::
  "(string \<Rightarrow> 'w \<Rightarrow> (error + ('a, 't, 'w) unet_model) \<times> 'w) \<Rightarrow> string \<Rightarrow> int \<Rightarrow>
   ('a, 't, 'w) diffusers_scheduler \<Rightarrow> (('a, 't, 'w) Scheduler, 't, 'w) prog" where
  "Scheduler_init_runner from_pretrained hf_model_name num_inference_steps sched =
     bind (call (SetTimesteps num_inference_steps) (set_timesteps sched num_inference_steps))
       (\<lambda>_. bind (call (UnetFromPretrained hf_model_name) (from_pretrained hf_model_name))
         (\<lambda>u. ret \<lparr>scheduler = sched, unet = u, guidance_scale = 15 / 2\<rparr>))"

definition forward_body_runner ::
  "'a arith \<Rightarrow> ('a, 't, 'w) Scheduler \<Rightarrow> 't tensor \<Rightarrow> 'a tensor \<Rightarrow> 'a tensor \<Rightarrow>
   ('a tensor, 't, 'w) prog" where
  "forward_body_runner A self t0 latents encoder_hidden_states =
     bind (lift (torch_cat (replicate 2 latents)))
       (\<lambda>latent_model_input.
     let t = unsqueeze0 t0 in
     bind (call (ScaleModelInput t) (scale_model_input (scheduler self) latent_model_input t))
       (\<lambda>latent_model_input.
     bind (call (UnetForward t) (unet self latent_model_input t encoder_hidden_states))
       (\<lambda>unet_out.
     bind (lift (torch_chunk unet_out 2))
       (\<lambda>chunks.
     bind (lift (unpack2 chunks))
       (\<lambda>(noise_pred_uncond, noise_pred_text).
     bind (lift (tensor_binop (fsub A) noise_pred_text noise_pred_uncond))
       (\<lambda>diff.
     bind (lift (tensor_binop (fadd A) noise_pred_uncond
                   (scalar_mul_tensor A (of_float A (guidance_scale self)) diff)))
       (\<lambda>noise_pred.
     call (SchedulerStep t) (step (scheduler self) noise_pred t latents))))))))"

fun forward_loop_runner ::
  "'a arith \<Rightarrow> ('a, 't, 'w) Scheduler \<Rightarrow> 't tensor list \<Rightarrow> 'a tensor \<Rightarrow> 'a tensor \<Rightarrow>
   ('a tensor, 't, 'w) prog" where
  "forward_loop_runner A self [] latents encoder_hidden_states = ret latents"
| "forward_loop_runner A self (t # ts) latents encoder_hidden_states =
     bind (forward_body_runner A self t latents encoder_hidden_states)
       (\<lambda>latents. forward_loop_runner A self ts latents encoder_hidden_states)"

definition forward_runner ::
  "'a arith \<Rightarrow> ('a, 't, 'w) Scheduler \<Rightarrow> 'a tensor \<Rightarrow> 'a tensor \<Rightarrow> ('a tensor, 't, 'w) prog" where
  "forward_runner A self latents encoder_hidden_states =
     bind (read GetInitNoiseSigma (init_noise_sigma (scheduler self)))
       (\<lambda>sigma.
     let latents = tensor_mul_scalar A latents sigma in
     bind (read GetTimesteps (timesteps (scheduler self)))
       (\<lambda>ts.
     bind (lift (tensor_iter ts))
       (\<lambda>ts. forward_loop_runner A self ts latents encoder_hidden_states)))"

section \<open>The command-line scripts\<close>

text \<open>
  A value of numpy's floating point, as far as comparison goes: finite values compare as
  the rationals they are, NaN compares false with everything.
\<close>

datatype pyfloat = Finite rat | PosInf | NegInf | NaN

fun float_lt :: "pyfloat \<Rightarrow> pyfloat \<Rightarrow> bool" where
  "float_lt NaN y = False"
| "float_lt x NaN = False"
| "float_lt (Finite a) (Finite b) = (a < b)"
| "float_lt (Finite a) PosInf = True"
| "float_lt (Finite a) NegInf = False"
| "float_lt PosInf y = False"
| "float_lt NegInf NegInf = False"
| "float_lt NegInf y = True"

fun float_ge :: "pyfloat \<Rightarrow> pyfloat \<Rightarrow> bool" where
  "float_ge NaN y = False"
| "float_ge x NaN = False"
| "float_ge (Finite a) (Finite b) = (b \<le> a)"
| "float_ge (Finite a) PosInf = False"
| "float_ge (Finite a) NegInf = True"
| "float_ge PosInf y = True"
| "float_ge NegInf NegInf = True"
| "float_ge NegInf y = False"

text \<open>The literal \<open>9e-3\<close>: the double nearest to 9/1000.\<close>

definition tolerance :: pyfloat where
  "tolerance = Finite (5188146770730811 / 576460752303423488)"

text \<open>
  The collaborators of the two scripts: torch, diffusers, the helpers of
  \<open>turbine_models\<close> (\<open>utils\<close>, \<open>turbine_tank\<close>, \<open>vmfbRunner\<close>), the tracer and compiler,
  the runtime, and the file system. None of them is among the source files; each is a
  parameter.
\<close>

record ('a, 't, 'w) env =
  torch_arith :: "'a arith"
  torch_rand :: "int list \<Rightarrow> 'w \<Rightarrow> (error + 'a tensor) \<times> 'w"
  from_pretrained :: "string \<Rightarrow> 'w \<Rightarrow> (error + ('a, 't, 'w) unet_model) \<times> 'w"
  get_schedulers ::
    "string \<Rightarrow> 'w \<Rightarrow> (error + (string \<Rightarrow> ('a, 't, 'w) diffusers_scheduler option)) \<times> 'w"
  largest_error :: "'a tensor \<Rightarrow> 'a tensor \<Rightarrow> 'w \<Rightarrow> (error + pyfloat) \<times> 'w"
  create_safe_name :: "string \<Rightarrow> string \<Rightarrow> string"
  save_external_weights ::
    "('a, 't, 'w) Scheduler \<Rightarrow> string option \<Rightarrow> string option \<Rightarrow> 'w \<Rightarrow> (error + unit) \<times> 'w"
  export_module ::
    "('a, 't, 'w) Scheduler \<Rightarrow> bool \<Rightarrow> int list \<Rightarrow> int list \<Rightarrow> string \<Rightarrow>
     'w \<Rightarrow> (error + string) \<times> 'w"
  compile_to_vmfb ::
    "string \<Rightarrow> string option \<Rightarrow> string option \<Rightarrow> string option \<Rightarrow> string \<Rightarrow>
     'w \<Rightarrow> (error + unit) \<times> 'w"
  uploadToBlobStorage :: "string \<Rightarrow> string \<Rightarrow> 'w \<Rightarrow> (error + unit) \<times> 'w"
  write_file :: "string \<Rightarrow> string option \<Rightarrow> 'w \<Rightarrow> (error + unit) \<times> 'w"
  vmfbRunner :: "string \<Rightarrow> string \<Rightarrow> string \<Rightarrow> 'w \<Rightarrow> (error + unit) \<times> 'w"
  asdevicearray :: "'a tensor \<Rightarrow> 'w \<Rightarrow> (error + 'a tensor) \<times> 'w"
  compiled_scheduler_main :: "'a tensor list \<Rightarrow> 'w \<Rightarrow> (error + 'a tensor) \<times> 'w"
  to_host :: "'a tensor \<Rightarrow> 'w \<Rightarrow> (error + 'a tensor) \<times> 'w"

text \<open>\<open>d[k]\<close> on a dict.\<close>

definition dict_get :: "(string \<Rightarrow> 'v option) \<Rightarrow> string \<Rightarrow> error + 'v" where
  "dict_get d k = (case d k of None \<Rightarrow> Inl (KeyError k) | Some v \<Rightarrow> Inr v)"

text \<open>The truth value of an optional string: \<open>None\<close> and the empty string are false.\<close>

definition truthy :: "string option \<Rightarrow> bool" where
  "truthy v = (case v of None \<Rightarrow> False | Some x \<Rightarrow> x \<noteq> [])"

subsection \<open>schedulers.py\<close>

record exporter_args =
  hf_auth_token :: "string option"
  hf_model_name :: string
  scheduler_id :: string
  num_inference_steps :: int
  batch_size :: int
  height :: int
  width :: int
  compile_to :: "string option"
  external_weight_path :: "string option"
  external_weights :: "string option"
  device :: "string option"
  iree_target_triple :: "string option"
  vulkan_max_allocation :: "string option"

text \<open>Lines 123 to 125.\<close>

definition encoder_hidden_states_sizes :: "string \<Rightarrow> int list" where
  "encoder_hidden_states_sizes model_name =
     (if model_name = ''stabilityai/stable-diffusion-2-1-base'' then [2, 77, 1024]
      else [2, 77, 768])"

text \<open>Line 127; \<open>//\<close> is floor division, as \<open>div\<close> on \<open>int\<close> is.\<close>

definition sample_sizes :: "int \<Rightarrow> int \<Rightarrow> int \<Rightarrow> int list" where
  "sample_sizes batch h w = [batch, 4, h div 8, w div 8]"

definition str_replace :: "char \<Rightarrow> char \<Rightarrow> string \<Rightarrow> string" where
  "str_replace a b s = map (\<lambda>c. if c = a then b else c) s"

text \<open>
  \<open>export_scheduler\<close>. The class body of \<open>CompiledScheduler\<close>, its instantiation and
  \<open>get_mlir_module\<close> are one call to the tracer, which is given the module, whether the
  weights are external, the two declared input sizes and \<open>import_to\<close>. The result is
  \<open>None\<close> on the path that compiles to a vmfb, as the source returns nothing there.
\<close>

definition export_scheduler ::
  "('a, 't, 'w) env \<Rightarrow> ('a, 't, 'w) Scheduler \<Rightarrow> string \<Rightarrow> int \<Rightarrow> int \<Rightarrow> int \<Rightarrow>
   string option \<Rightarrow> string option \<Rightarrow> string option \<Rightarrow> string option \<Rightarrow> string option \<Rightarrow>
   string option \<Rightarrow> string option \<Rightarrow> bool \<Rightarrow> (string option, 't, 'w) prog" where
  "export_scheduler E sched model_name batch h w token compile_target ext_weights
     ext_weight_path dev target_triple max_alloc upload_ir =
     bind (call SaveExternalWeights (save_external_weights E sched ext_weights ext_weight_path))
       (\<lambda>_.
     let sizes = encoder_hidden_states_sizes model_name;
         sample = sample_sizes batch h w;
         import_to = (if compile_target = Some ''linalg'' then ''INPUT'' else ''IMPORT'') in
     bind (call (ExportModule sample sizes import_to)
             (export_module E sched (truthy ext_weights) sample sizes import_to))
       (\<lambda>module_str.
     let safe_name = create_safe_name E model_name ''-scheduler'' in
     bind (if upload_ir
           then bind (call (WriteFile (safe_name @ ''.mlir''))
                        (write_file E (safe_name @ ''.mlir'') (Some module_str)))
                  (\<lambda>_.
                let model_name_upload = str_replace CHR ''/'' CHR ''-'' model_name @ ''_scheduler'' in
                call (UploadToBlobStorage model_name_upload)
                  (uploadToBlobStorage E (safe_name @ ''.mlir'')
                     (model_name_upload @ ''/'' @ model_name_upload @ ''.mlir'')))
           else ret ())
       (\<lambda>_.
     if compile_target \<noteq> Some ''vmfb'' then ret (Some module_str)
     else bind (call (CompileToVmfb safe_name)
                  (compile_to_vmfb E module_str dev target_triple max_alloc safe_name))
            (\<lambda>_. ret None))))"

text \<open>The script's \<open>__main__\<close>, lines 166 to 190, after the arguments are parsed.\<close>

definition exporter_main :: "('a, 't, 'w) env \<Rightarrow> exporter_args \<Rightarrow> (unit, 't, 'w) prog" where
  "exporter_main E args =
     bind (call (GetSchedulers (hf_model_name args)) (get_schedulers E (hf_model_name args)))
       (\<lambda>schedulers.
     bind (lift (dict_get schedulers (scheduler_id args)))
       (\<lambda>sched.
     bind (Scheduler_init (from_pretrained E) (hf_model_name args) (num_inference_steps args) sched)
       (\<lambda>scheduler_module.
     bind (export_scheduler E scheduler_module (hf_model_name args) (batch_size args)
             (height args) (width args) (hf_auth_token args) (compile_to args)
             (external_weights args) (external_weight_path args) (device args)
             (iree_target_triple args) (vulkan_max_allocation args) False)
       (\<lambda>mod_str.
     let safe_name = create_safe_name E (hf_model_name args) ''-scheduler'' in
     bind (call (WriteFile (safe_name @ ''.mlir'')) (write_file E (safe_name @ ''.mlir'') mod_str))
       (\<lambda>_. call Print (\<lambda>w. (Inr (), w)))))))"

subsection \<open>schedulers_runner.py\<close>

record runner_args =
  scheduler_id :: string
  num_inference_steps :: int
  vmfb_path :: string
  external_weight_path :: string
  compare_vs_torch :: bool
  hf_model_name :: string
  hf_auth_token :: "string option"
  device :: string
  batch_size :: int
  height :: int
  width :: int

text \<open>\<open>run_scheduler\<close>, lines 68 to 84.\<close>

definition run_scheduler ::
  "('a, 't, 'w) env \<Rightarrow> string \<Rightarrow> 'a tensor \<Rightarrow> 'a tensor \<Rightarrow> string \<Rightarrow> string \<Rightarrow>
   string option \<Rightarrow> string \<Rightarrow> ('a tensor, 't, 'w) prog" where
  "run_scheduler E dev sample encoder_hidden_states path model_name token weight_path =
     bind (call (VmfbRunner path) (vmfbRunner E dev path weight_path))
       (\<lambda>_.
     bind (call AsDeviceArray (asdevicearray E sample))
       (\<lambda>input0.
     bind (call AsDeviceArray (asdevicearray E encoder_hidden_states))
       (\<lambda>input1.
     call InvokeMain (compiled_scheduler_main E [input0, input1]))))"

text \<open>
  \<open>run_torch_scheduler\<close>, lines 87 to 124; \<open>detach().cpu().numpy()\<close> keeps shape and
  elements.
\<close>

definition run_torch_scheduler ::
  "('a, 't, 'w) env \<Rightarrow> string \<Rightarrow> ('a, 't, 'w) diffusers_scheduler \<Rightarrow> int \<Rightarrow> 'a tensor \<Rightarrow>
   'a tensor \<Rightarrow> ('a tensor, 't, 'w) prog" where
  "run_torch_scheduler E model_name sched steps sample encoder_hidden_states =
     bind (Scheduler_init_runner (from_pretrained E) model_name steps sched)
       (\<lambda>scheduler_module.
     forward_runner (torch_arith E) scheduler_module sample encoder_hidden_states)"

text \<open>
  Lines 132 to 135: the conditioning tensor is assigned for two model names only; with any
  other name the variable stays unbound (\<open>None\<close> here).
\<close>

definition runner_encoder_hidden_states ::
  "('a, 't, 'w) env \<Rightarrow> string \<Rightarrow> ('a tensor option, 't, 'w) prog" where
  "runner_encoder_hidden_states E model_name =
     (if model_name = ''CompVis/stable-diffusion-v1-4''
      then bind (call (TorchRand [2, 77, 768]) (torch_rand E [2, 77, 768])) (\<lambda>x. ret (Some x))
      else if model_name = ''stabilityai/stable-diffusion-2-1-base''
      then bind (call (TorchRand [2, 77, 1024]) (torch_rand E [2, 77, 1024])) (\<lambda>x. ret (Some x))
      else ret None)"

text \<open>Reading a module-level variable: unbound raises NameError.\<close>

definition load_name :: "string \<Rightarrow> 'x option \<Rightarrow> ('x, 't, 'w) prog" where
  "load_name name v = (case v of None \<Rightarrow> raise (NameError name) | Some x \<Rightarrow> ret x)"

text \<open>Line 169: \<open>assert err < 9e-3\<close>.\<close>

definition assert_tolerance :: "pyfloat \<Rightarrow> (unit, 't, 'w) prog" where
  "assert_tolerance err = (if float_lt err tolerance then ret () else raise AssertionError)"

text \<open>Lines 153 to 169, the body of \<open>if args.compare_vs_torch\<close>.\<close>

definition compare_with_torch ::
  "('a, 't, 'w) env \<Rightarrow> runner_args \<Rightarrow> 'a tensor \<Rightarrow> 'a tensor \<Rightarrow> 'a tensor \<Rightarrow>
   (unit, 't, 'w) prog" where
  "compare_with_torch E args sample encoder_hidden_states turbine_output =
     bind (call Print (\<lambda>w. (Inr (), w)))
       (\<lambda>_.
     bind (call (GetSchedulers (hf_model_name args)) (get_schedulers E (hf_model_name args)))
       (\<lambda>schedulers.
     bind (lift (dict_get schedulers (scheduler_id args)))
       (\<lambda>sched.
     bind (run_torch_scheduler E (hf_model_name args) sched (num_inference_steps args)
             sample encoder_hidden_states)
       (\<lambda>torch_output.
     bind (call Print (\<lambda>w. (Inr (), w)))
       (\<lambda>_.
     bind (call LargestError (largest_error E torch_output turbine_output))
       (\<lambda>err.
     bind (call Print (\<lambda>w. (Inr (), w)))
       (\<lambda>_. assert_tolerance err)))))))"

text \<open>
  Lines 129 to 151 of \<open>__main__\<close>, after the arguments are parsed: the inputs are drawn, the
  compiled artifact is run on them and its output is printed. The conditioning tensor is
  read at line 140, while the arguments of the call of \<open>run_scheduler\<close> are evaluated.
\<close>

definition runner_execute ::
  "('a, 't, 'w) env \<Rightarrow> runner_args \<Rightarrow> ('a tensor \<times> 'a tensor \<times> 'a tensor, 't, 'w) prog" where
  "runner_execute E args =
     (let sizes = [batch_size args, 4, height args div 8, width args div 8] in
     bind (call (TorchRand sizes) (torch_rand E sizes))
       (\<lambda>sample.
     bind (runner_encoder_hidden_states E (hf_model_name args))
       (\<lambda>encoder_hidden_states.
     bind (load_name ''encoder_hidden_states'' encoder_hidden_states)
       (\<lambda>encoder_hidden_states.
     bind (run_scheduler E (device args) sample encoder_hidden_states (vmfb_path args)
             (hf_model_name args) (hf_auth_token args) (external_weight_path args))
       (\<lambda>turbine_output.
     bind (call ToHost (to_host E turbine_output))
       (\<lambda>_.
     bind (call ToHost (to_host E turbine_output))
       (\<lambda>_.
     bind (call ToHost (to_host E turbine_output))
       (\<lambda>_.
     bind (call Print (\<lambda>w. (Inr (), w)))
       (\<lambda>_. ret (sample, encoder_hidden_states, turbine_output))))))))))"

text \<open>The whole of \<open>__main__\<close>, lines 127 to 172.\<close>

definition runner_main :: "('a, 't, 'w) env \<Rightarrow> runner_args \<Rightarrow> (unit, 't, 'w) prog" where
  "runner_main E args =
     bind (runner_execute E args)
       (\<lambda>(sample, encoder_hidden_states, turbine_output).
     if compare_vs_torch args
     then compare_with_torch E args sample encoder_hidden_states turbine_output
     else ret ())"

section \<open>Observations on traces\<close>

text \<open>The calls the body of the loop makes.\<close>

fun is_loop_event :: "'t event \<Rightarrow> bool" where
  "is_loop_event (ScaleModelInput t) = True"
| "is_loop_event (UnetForward t) = True"
| "is_loop_event (SchedulerStep t) = True"
| "is_loop_event e = False"

fun is_step_event :: "'t event \<Rightarrow> bool" where
  "is_step_event (SchedulerStep t) = True"
| "is_step_event e = False"

text \<open>The number of passes of the loop a trace shows: one call of \<open>step\<close> ends each.\<close>

definition loop_iterations :: "'t event list \<Rightarrow> nat" where
  "loop_iterations evs = length (filter is_step_event evs)"

text \<open>The calls one pass of the loop makes at timestep \<open>t\<close>, in order.\<close>

definition iteration_events :: "'t tensor \<Rightarrow> 't event list" where
  "iteration_events t =
     [ScaleModelInput (unsqueeze0 t), UnetForward (unsqueeze0 t), SchedulerStep (unsqueeze0 t)]"

text \<open>The input sizes a trace shows declared to the tracer, and drawn by \<open>torch.rand\<close>.\<close>

fun declared_inputs :: "'t event list \<Rightarrow> (int list \<times> int list) list" where
  "declared_inputs [] = []"
| "declared_inputs (ExportModule sample sizes import_to # evs) =
     (sample, sizes) # declared_inputs evs"
| "declared_inputs (e # evs) = declared_inputs evs"

fun rand_sizes :: "'t event list \<Rightarrow> int list list" where
  "rand_sizes [] = []"
| "rand_sizes (TorchRand sizes # evs) = sizes # rand_sizes evs"
| "rand_sizes (e # evs) = rand_sizes evs"

section \<open>A small concrete environment\<close>

text \<open>
  Elements are rationals with exact arithmetic, the world is the number of timesteps the
  scheduler holds. \<open>set_timesteps n\<close> sets up \<open>n + extra\<close> timesteps, counting down to 0;
  the network adds to each element its position; \<open>step\<close> subtracts the noise from the
  latents.
\<close>

definition rat_arith :: "rat arith" where
  "rat_arith = \<lparr>fadd = (+), fsub = (-), fmul = (*), of_float = (\<lambda>q. q)\<rparr>"

definition countdown_scheduler :: "nat \<Rightarrow> (rat, int, nat) diffusers_scheduler" where
  "countdown_scheduler extra =
     \<lparr>set_timesteps = (\<lambda>n w. (Inr (), nat n + extra)),
      init_noise_sigma = (\<lambda>w. 2),
      timesteps = (\<lambda>w. Tensor [w] (map int (rev [0..<w]))),
      scale_model_input = (\<lambda>x t w. (Inr x, w)),
      step = (\<lambda>noise t latents w.
                (Inr (Tensor (shape latents) (map2 (-) (data latents) (data noise))), w))\<rparr>"

definition ramp_unet :: "(rat, int, nat) unet_model" where
  "ramp_unet =
     (\<lambda>x t e w. (Inr (Tensor (shape x) (map2 (+) (data x) (map of_nat [0..<length (data x)]))), w))"

definition ones :: "int list \<Rightarrow> rat tensor" where
  "ones sizes = Tensor (map nat sizes) (replicate (prod_list (map nat sizes)) 1)"

definition registry :: "nat \<Rightarrow> string \<Rightarrow> (rat, int, nat) diffusers_scheduler option" where
  "registry extra k = (if k = ''PNDM'' then Some (countdown_scheduler extra) else None)"

definition test_env :: "nat \<Rightarrow> pyfloat \<Rightarrow> (rat, int, nat) env" where
  "test_env extra err =
     \<lparr>torch_arith = rat_arith,
      torch_rand = (\<lambda>sizes w. (Inr (ones sizes), w)),
      from_pretrained = (\<lambda>name w. (Inr ramp_unet, w)),
      get_schedulers = (\<lambda>name w. (Inr (registry extra), w)),
      largest_error = (\<lambda>x y w. (Inr err, w)),
      create_safe_name = (\<lambda>name suffix. str_replace CHR ''/'' CHR ''_'' name @ suffix),
      save_external_weights = (\<lambda>m x y w. (Inr (), w)),
      export_module = (\<lambda>m ext sample sizes import_to w. (Inr ''module'', w)),
      compile_to_vmfb = (\<lambda>m d t a n w. (Inr (), w)),
      uploadToBlobStorage = (\<lambda>x y w. (Inr (), w)),
      write_file = (\<lambda>name text w. (Inr (), w)),
      vmfbRunner = (\<lambda>d p x w. (Inr (), w)),
      asdevicearray = (\<lambda>x w. (Inr x, w)),
      compiled_scheduler_main = (\<lambda>xs w. (Inr (hd xs), w)),
      to_host = (\<lambda>x w. (Inr x, w))\<rparr>"

definition exporter_defaults :: exporter_args where
  "exporter_defaults =
     \<lparr>exporter_args.hf_auth_token = None,
      hf_model_name = ''CompVis/stable-diffusion-v1-4'',
      scheduler_id = ''PNDM'',
      num_inference_steps = 50,
      batch_size = 1,
      height = 512,
      width = 512,
      compile_to = None,
      external_weight_path = Some [],
      external_weights = None,
      device = Some ''cpu'',
      iree_target_triple = Some [],
      vulkan_max_allocation = Some ''4294967296''\<rparr>"

definition runner_defaults :: runner_args where
  "runner_defaults =
     \<lparr>runner_args.scheduler_id = ''PNDM'',
      num_inference_steps = 50,
      vmfb_path = [],
      external_weight_path = [],
      compare_vs_torch = False,
      hf_model_name = ''CompVis/stable-diffusion-v1-4'',
      hf_auth_token = None,
      device = ''local-task'',
      batch_size = 1,
      height = 512,
      width = 512\<rparr>"

definition start :: "(int, nat) state" where
  "start = \<lparr>world = 0, trace = []\<rparr>"

section \<open>Lemmas on the monad\<close>

lemma bind_Inr: "m s = (Inr x, s') \<Longrightarrow> bind m f s = f x s'"
  by (simp add: bind_def)

lemma bind_Inl: "m s = (Inl e, s') \<Longrightarrow> bind m f s = (Inl e, s')"
  by (simp add: bind_def)

section \<open>Lemmas on the tensor operations\<close>

lemma broadcast_rev_same: "broadcast_rev xs xs = Some xs"
  by (induction xs) simp_all

lemma broadcast_shapes_same: "broadcast_shapes s s = Some s"
  by (simp add: broadcast_shapes_def broadcast_rev_same)

lemma length_chop: "length (chop n d xs) = d"
  by (induction d arbitrary: xs) simp_all

lemma concat_chop: "length xs = n * d \<Longrightarrow> concat (chop n d xs) = xs"
  by (induction d arbitrary: xs) simp_all

lemma chop_block_length: "length xs = n * d \<Longrightarrow> b \<in> set (chop n d xs) \<Longrightarrow> length b = n"
proof (induction d arbitrary: xs)
  case 0
  then show ?case by simp
next
  case (Suc d)
  have len: "length (drop n xs) = n * d"
    using Suc.prems(1) by simp
  from Suc.prems(2) have "b = take n xs \<or> b \<in> set (chop n d (drop n xs))"
    by simp
  then show ?case
  proof
    assume "b = take n xs"
    then show ?thesis using Suc.prems(1) by simp
  next
    assume "b \<in> set (chop n d (drop n xs))"
    then show ?thesis by (rule Suc.IH [OF len])
  qed
qed

text \<open>Broadcasting a well-formed tensor to its own shape changes nothing.\<close>

lemma expand_same: "length xs = prod_list s \<Longrightarrow> expand s s xs = xs"
proof (induction s arbitrary: xs)
  case Nil
  then show ?case by simp
next
  case (Cons d ds)
  have len: "length xs = prod_list ds * d"
    using Cons.prems by (simp add: mult.commute)
  have "map (expand ds ds) (chop (prod_list ds) d xs) = chop (prod_list ds) d xs"
    by (rule map_idI) (simp add: Cons.IH chop_block_length [OF len])
  then show ?case
    by (simp add: concat_chop [OF len])
qed

lemma expand_to_same: "length xs = prod_list s \<Longrightarrow> expand_to s s xs = xs"
  by (simp add: expand_to_def expand_same)

lemma tensor_binop_same:
  "shape x = shape y \<Longrightarrow> wf_tensor x \<Longrightarrow> wf_tensor y \<Longrightarrow>
   tensor_binop f x y = Inr (Tensor (shape x) (map2 f (data x) (data y)))"
  by (simp add: tensor_binop_def broadcast_shapes_same expand_to_same wf_tensor_def)

lemma chunk_sizes_even: "chunk_sizes (2 * b) 2 = [b, b]"
proof (cases "b = 0")
  case True
  then show ?thesis by (simp add: chunk_sizes_def numeral_2_eq_2)
next
  case False
  have "(2 * b + 2 - 1) div 2 = b" by simp
  with False show ?thesis
    by (simp add: chunk_sizes_def Let_def numeral_2_eq_2)
qed

lemma torch_chunk_even:
  assumes "shape x = (2 * b) # ds" and "wf_tensor x"
  shows "torch_chunk x 2 =
           Inr [Tensor (b # ds) (take (b * prod_list ds) (data x)),
                Tensor (b # ds) (drop (b * prod_list ds) (data x))]"
  using assms by (simp add: torch_chunk_def chunk_sizes_even wf_tensor_def)

text \<open>
  On an output whose first axis is even, the guided prediction is, element by element,
  \<open>u + g * (c - u)\<close> on the two halves.
\<close>

lemma guided_noise_even:
  assumes "shape x = (2 * b) # ds" and "wf_tensor x"
  shows "guided_noise A g x =
           Inr (Tensor (b # ds)
                  (map2 (\<lambda>u c. fadd A u (fmul A (of_float A g) (fsub A c u)))
                     (take (b * prod_list ds) (data x)) (drop (b * prod_list ds) (data x))))"
proof -
  let ?n = "b * prod_list ds"
  let ?u = "Tensor (b # ds) (take ?n (data x))"
  let ?c = "Tensor (b # ds) (drop ?n (data x))"
  have len: "length (data x) = 2 * ?n"
    using assms by (simp add: wf_tensor_def)
  have wu: "wf_tensor ?u" and wc: "wf_tensor ?c"
    using len by (simp_all add: wf_tensor_def)
  have diff: "tensor_binop (fsub A) ?c ?u =
                Inr (Tensor (b # ds) (map2 (fsub A) (drop ?n (data x)) (take ?n (data x))))"
    using tensor_binop_same [OF _ wc wu] by simp
  let ?d = "scalar_mul_tensor A (of_float A g)
              (Tensor (b # ds) (map2 (fsub A) (drop ?n (data x)) (take ?n (data x))))"
  have wd: "wf_tensor ?d" and sd: "shape ?d = b # ds"
    using len by (simp_all add: wf_tensor_def scalar_mul_tensor_def)
  have sum: "tensor_binop (fadd A) ?u ?d = Inr (Tensor (b # ds) (map2 (fadd A) (data ?u) (data ?d)))"
    using tensor_binop_same [OF _ wu wd] sd by simp
  have "map2 (fadd A) (data ?u) (data ?d) =
          map2 (\<lambda>u c. fadd A u (fmul A (of_float A g) (fsub A c u)))
            (take ?n (data x)) (drop ?n (data x))"
    using len by (intro nth_equalityI) (simp_all add: scalar_mul_tensor_def)
  with sum diff show ?thesis
    by (simp add: guided_noise_def torch_chunk_even [OF assms])
qed

section \<open>The two loops\<close>

lemma forward_body_runner_eq:
  "forward_body_runner A self t latents e = forward_body A self t latents e"
  by (auto simp: fun_eq_iff forward_body_def forward_body_runner_def bind_def lift_def
      guided_noise_def Let_def split: sum.splits prod.splits)

lemma forward_loop_runner_eq:
  "forward_loop_runner A self ts latents e = forward_loop A self ts latents e"
  by (induction ts arbitrary: latents) (simp_all add: forward_body_runner_eq)

text \<open>
  Claim C9. The sampling loop of the exporter (\<open>Scheduler.forward\<close> of schedulers.py) and the
  eager reference loop of the runner (\<open>Scheduler.forward\<close> inside \<open>run_torch_scheduler\<close>)
  are the same function: on every module, latent tensor and conditioning tensor, and from
  every state of the collaborators, they return the same result, leave the same state and
  make the same calls. The two constructors agree as well.
\<close>

theorem runner_loop_equals_exporter_loop:
  "forward_runner A self latents encoder_hidden_states =
     forward A self latents encoder_hidden_states
   \<and> Scheduler_init_runner pretrained name n sched = Scheduler_init pretrained name n sched"
  by (simp add: forward_runner_def forward_def forward_loop_runner_eq
      Scheduler_init_runner_def Scheduler_init_def)

section \<open>Lemmas on the loop\<close>

lemma forward_body_trace_ok:
  "forward_body A self t latents e s = (Inr r, s') \<Longrightarrow> trace s' = trace s @ iteration_events t"
  by (auto simp: forward_body_def bind_def lift_def call_def Let_def iteration_events_def
      split: sum.splits prod.splits)

lemma forward_body_trace_any:
  "\<exists>evs. trace (snd (forward_body A self t latents e s)) = trace s @ evs \<and> list_all is_loop_event evs"
  by (auto simp: forward_body_def bind_def lift_def call_def Let_def
      split: sum.splits prod.splits)

lemma forward_loop_trace_ok:
  "forward_loop A self ts latents e s = (Inr r, s') \<Longrightarrow>
   trace s' = trace s @ concat (map iteration_events ts)"
proof (induction ts arbitrary: latents s)
  case Nil
  then show ?case by (simp add: ret_def)
next
  case (Cons t ts)
  obtain r1 s1 where b: "forward_body A self t latents e s = (r1, s1)"
    by (cases "forward_body A self t latents e s")
  show ?case
  proof (cases r1)
    case (Inl err)
    with b Cons.prems show ?thesis by (simp add: bind_def)
  next
    case (Inr l1)
    with b Cons.prems have "forward_loop A self ts l1 e s1 = (Inr r, s')"
      by (simp add: bind_def)
    from Cons.IH [OF this] forward_body_trace_ok [of A self t latents e s l1 s1] b Inr
    show ?thesis by simp
  qed
qed

lemma forward_loop_trace_any:
  "\<exists>evs. trace (snd (forward_loop A self ts latents e s)) = trace s @ evs \<and> list_all is_loop_event evs"
proof (induction ts arbitrary: latents s)
  case Nil
  then show ?case by (simp add: ret_def)
next
  case (Cons t ts)
  obtain r1 s1 where b: "forward_body A self t latents e s = (r1, s1)"
    by (cases "forward_body A self t latents e s")
  from forward_body_trace_any [of A self t latents e s] b
  obtain evs1 where e1: "trace s1 = trace s @ evs1" "list_all is_loop_event evs1"
    by auto
  show ?case
  proof (cases r1)
    case (Inl err)
    with b e1 show ?thesis by (auto simp: bind_def)
  next
    case (Inr l1)
    from Cons.IH [of l1 s1]
    obtain evs2 where e2: "trace (snd (forward_loop A self ts l1 e s1)) = trace s1 @ evs2"
      "list_all is_loop_event evs2" by auto
    have "trace (snd (forward_loop A self (t # ts) latents e s)) = trace s @ (evs1 @ evs2)"
      using b Inr e1 e2 by (simp add: bind_def)
    moreover have "list_all is_loop_event (evs1 @ evs2)"
      using e1 e2 by simp
    ultimately show ?thesis by blast
  qed
qed



lemma forward_loop_append:
  "forward_loop A self (ts1 @ ts2) latents e =
     bind (forward_loop A self ts1 latents e) (\<lambda>l. forward_loop A self ts2 l e)"
proof (induction ts1 arbitrary: latents)
  case Nil
  show ?case by (simp add: bind_def ret_def)
next
  case (Cons t ts1)
  show ?case
    by (auto simp: Cons.IH bind_def fun_eq_iff split: sum.splits prod.splits)
qed

lemma forward_loop_frame:
  "forward_loop A (self\<lparr>scheduler := (scheduler self)\<lparr>init_noise_sigma := f\<rparr>\<rparr>) ts latents e =
   forward_loop A self ts latents e"
  by (induction ts arbitrary: latents) (simp_all add: forward_body_def)

section \<open>The sampling loop\<close>

lemma Scheduler_init_result:
  "Scheduler_init pretrained name n sched s0 = (Inr self, s1) \<Longrightarrow>
   scheduler self = sched \<and> guidance_scale self = 15 / 2"
  by (auto simp: Scheduler_init_def bind_def call_def ret_def split: sum.splits prod.splits)

lemma torch_cat_twice:
  "torch_cat (replicate 2 x) =
     (case shape x of [] \<Rightarrow> Inl RuntimeError
      | d # ds \<Rightarrow> Inr (Tensor ((d + d) # ds) (data x @ data x)))"
  by (simp add: numeral_2_eq_2 split: list.splits)

lemma loop_iterations_concat:
  "loop_iterations (concat (map iteration_events ts)) = length ts"
  by (induction ts) (simp_all add: loop_iterations_def iteration_events_def)

lemma tensor_iter_length:
  "tensor_iter x = Inr ts \<Longrightarrow> length ts = hd (shape x)"
  by (auto simp: tensor_iter_def length_chop split: list.splits)

text \<open>
  Claim C2. In every pass of the loop of a module built by \<open>Scheduler.__init__\<close>, the noise
  prediction handed to the scheduler's \<open>step\<close> is, element by element,
  \<open>noise_uncond + 7.5 * (noise_cond - noise_uncond)\<close>, in exactly this form: the guidance
  scale is the constant 15/2, \<open>noise_uncond\<close> is the first half and \<open>noise_cond\<close> the second
  half of the network's output along the batch axis. The arithmetic is uninterpreted, so no
  reordering is hidden in the statement. The network's output is a well-formed tensor
  whose batch axis is even, as it is when the network keeps the shape of its input.
\<close>

theorem guided_noise_formula:
  assumes init: "Scheduler_init pretrained name n sched s0 = (Inr self, s1)"
    and cat: "torch_cat (replicate 2 latents) = Inr x0"
    and scale: "scale_model_input (scheduler self) x0 (unsqueeze0 t) (world s) = (Inr x1, w1)"
    and net: "unet self x1 (unsqueeze0 t) e w1 = (Inr out, w2)"
    and even: "shape out = (2 * b) # ds"
    and wf: "wf_tensor out"
  shows "forward_body A self t latents e s =
           call (SchedulerStep (unsqueeze0 t))
             (step (scheduler self)
                (Tensor (b # ds)
                   (map2 (\<lambda>u c. fadd A u (fmul A (of_float A (15 / 2)) (fsub A c u)))
                      (take (b * prod_list ds) (data out))
                      (drop (b * prod_list ds) (data out))))
                (unsqueeze0 t) latents)
             \<lparr>world = w2,
              trace = trace s @ [ScaleModelInput (unsqueeze0 t), UnetForward (unsqueeze0 t)]\<rparr>"
proof -
  have g: "guidance_scale self = 15 / 2"
    using Scheduler_init_result [OF init] by simp
  show ?thesis
    using cat scale net
    by (simp add: forward_body_def bind_def lift_def call_def Let_def g
        guided_noise_even [OF even wf])
qed

text \<open>
  Claim C3. In every forward pass the latents are multiplied by the scheduler's
  \<open>init_noise_sigma\<close> once, before the first timestep: the pass is the loop started on
  the tensor of the shape of the latents whose every element \<open>v\<close> is the product
  \<open>v * init_noise_sigma\<close>, and the loop does not depend on \<open>init_noise_sigma\<close> at all
  (replacing it by any other function \<open>f\<close> leaves the loop unchanged). In the trace the
  attribute is read first and never again, whatever happens in the loop.
\<close>

theorem init_noise_sigma_applied_once:
  "forward A self latents e s =
     bind (lift (tensor_iter (timesteps (scheduler self) (world s))))
       (\<lambda>ts. forward_loop A (self\<lparr>scheduler := (scheduler self)\<lparr>init_noise_sigma := f\<rparr>\<rparr>) ts
                (Tensor (shape latents)
                   (map (\<lambda>v. fmul A v (init_noise_sigma (scheduler self) (world s)))
                      (data latents))) e)
       \<lparr>world = world s, trace = trace s @ [GetInitNoiseSigma, GetTimesteps]\<rparr>
   \<and> (\<exists>evs. new_events s (snd (forward A self latents e s)) = GetInitNoiseSigma # evs
            \<and> GetInitNoiseSigma \<notin> set evs)"
proof
  show "forward A self latents e s =
     bind (lift (tensor_iter (timesteps (scheduler self) (world s))))
       (\<lambda>ts. forward_loop A (self\<lparr>scheduler := (scheduler self)\<lparr>init_noise_sigma := f\<rparr>\<rparr>) ts
                (Tensor (shape latents)
                   (map (\<lambda>v. fmul A v (init_noise_sigma (scheduler self) (world s)))
                      (data latents))) e)
       \<lparr>world = world s, trace = trace s @ [GetInitNoiseSigma, GetTimesteps]\<rparr>"
    by (simp add: forward_def bind_def read_def lift_def Let_def forward_loop_frame
        tensor_mul_scalar_def split: sum.splits)
next
  let ?s2 = "\<lparr>world = world s, trace = trace s @ [GetInitNoiseSigma, GetTimesteps]\<rparr>"
  let ?l = "tensor_mul_scalar A latents (init_noise_sigma (scheduler self) (world s))"
  show "\<exists>evs. new_events s (snd (forward A self latents e s)) = GetInitNoiseSigma # evs
            \<and> GetInitNoiseSigma \<notin> set evs"
  proof (cases "tensor_iter (timesteps (scheduler self) (world s))")
    case (Inl err)
    then have "snd (forward A self latents e s) = ?s2"
      by (simp add: forward_def bind_def read_def lift_def Let_def)
    then show ?thesis by (simp add: new_events_def)
  next
    case (Inr ts)
    then have run: "forward A self latents e s = forward_loop A self ts ?l e ?s2"
      by (simp add: forward_def bind_def read_def lift_def Let_def)
    obtain evs where evs: "trace (snd (forward_loop A self ts ?l e ?s2)) = trace ?s2 @ evs"
      "list_all is_loop_event evs"
      using forward_loop_trace_any [of A self ts ?l e ?s2] by blast
    have "GetInitNoiseSigma \<notin> set evs"
      using evs(2) by (auto simp: list_all_iff)
    moreover have "new_events s (snd (forward A self latents e s)) =
                     GetInitNoiseSigma # GetTimesteps # evs"
      using run evs(1) by (simp add: new_events_def)
    ultimately show ?thesis by simp
  qed
qed

text \<open>
  Claim C4, as amended. A forward pass that returns has made exactly one pass of the loop
  for each element of the scheduler's timestep sequence, in order, with no early exit
  and no restart: the calls it made are the two attribute reads followed by, for each
  timestep in turn, \<open>scale_model_input\<close>, the network and \<open>step\<close>. The number of passes is
  the length of that sequence, the first axis of \<open>scheduler.timesteps\<close>, whatever step
  count the scheduler was configured with.
\<close>

theorem loop_runs_once_per_timestep:
  assumes run: "forward A self latents e s = (Inr r, s')"
  shows "\<exists>ts. tensor_iter (timesteps (scheduler self) (world s)) = Inr ts
           \<and> new_events s s' =
               GetInitNoiseSigma # GetTimesteps # concat (map iteration_events ts)
           \<and> loop_iterations (new_events s s') = length ts
           \<and> length ts = hd (shape (timesteps (scheduler self) (world s)))"
proof (cases "tensor_iter (timesteps (scheduler self) (world s))")
  case (Inl err)
  with run show ?thesis
    by (simp add: forward_def bind_def read_def lift_def Let_def)
next
  case (Inr ts)
  let ?s2 = "\<lparr>world = world s, trace = trace s @ [GetInitNoiseSigma, GetTimesteps]\<rparr>"
  let ?l = "tensor_mul_scalar A latents (init_noise_sigma (scheduler self) (world s))"
  have "forward_loop A self ts ?l e ?s2 = (Inr r, s')"
    using run Inr by (simp add: forward_def bind_def read_def lift_def Let_def)
  then have "trace s' = trace ?s2 @ concat (map iteration_events ts)"
    by (rule forward_loop_trace_ok)
  then have ev: "new_events s s' =
                   GetInitNoiseSigma # GetTimesteps # concat (map iteration_events ts)"
    by (simp add: new_events_def)
  have "loop_iterations (new_events s s') = length ts"
    using loop_iterations_concat [of ts]
    by (simp add: ev loop_iterations_def)
  with ev Inr tensor_iter_length [OF Inr] show ?thesis by simp
qed



theorem guided_noise_formula_witness:
  "forward_body rat_arith
     \<lparr>scheduler = countdown_scheduler 0, unet = ramp_unet, guidance_scale = 15 / 2\<rparr>
     (Tensor [] [1]) (Tensor [1, 2] [1, 2]) (Tensor [2, 1, 1] [0, 0]) \<lparr>world = 2, trace = []\<rparr> =
   (Inr (Tensor [1, 2] [1 - (1 + 15 / 2 * (3 - 1)), 2 - (3 + 15 / 2 * (5 - 3))]),
    \<lparr>world = 2,
     trace = [ScaleModelInput (Tensor [1] [1]), UnetForward (Tensor [1] [1]),
              SchedulerStep (Tensor [1] [1])]\<rparr>)"
proof -
  let ?M = "\<lparr>scheduler = countdown_scheduler 0, unet = ramp_unet, guidance_scale = 15 / 2\<rparr>"
  let ?t = "Tensor [] [1] :: int tensor"
  let ?s = "\<lparr>world = 2 :: nat, trace = [] :: int event list\<rparr>"
  have init: "Scheduler_init (from_pretrained (test_env 0 NaN)) ''m'' 2 (countdown_scheduler 0) start =
                (Inr ?M, \<lparr>world = 2, trace = [SetTimesteps 2, UnetFromPretrained ''m'']\<rparr>)"
    by (simp add: Scheduler_init_def bind_def call_def ret_def test_env_def start_def
        countdown_scheduler_def)
  have cat: "torch_cat (replicate 2 (Tensor [1, 2] [1, 2 :: rat])) = Inr (Tensor [2, 2] [1, 2, 1, 2])"
    by code_simp
  have scale: "scale_model_input (scheduler ?M) (Tensor [2, 2] [1, 2, 1, 2]) (unsqueeze0 ?t) (world ?s) =
                 (Inr (Tensor [2, 2] [1, 2, 1, 2]), 2)"
    by (simp add: countdown_scheduler_def)
  have net: "unet ?M (Tensor [2, 2] [1, 2, 1, 2]) (unsqueeze0 ?t) (Tensor [2, 1, 1] [0, 0]) 2 =
               (Inr (Tensor [2, 2] [1, 3, 3, 5]), 2)"
    by code_simp
  have even: "shape (Tensor [2, 2] [1, 3, 3, 5 :: rat]) = (2 * 1) # [2]"
    by simp
  have wf: "wf_tensor (Tensor [2, 2] [1, 3, 3, 5 :: rat])"
    by (simp add: wf_tensor_def)
  show ?thesis
    using guided_noise_formula [OF init cat scale net even wf, of rat_arith]
    by (simp add: call_def countdown_scheduler_def rat_arith_def unsqueeze0_def)
qed

theorem loop_runs_once_per_timestep_witness:
  "loop_iterations
     (new_events \<lparr>world = 2, trace = []\<rparr>
        (snd (forward rat_arith
                \<lparr>scheduler = countdown_scheduler 0, unet = ramp_unet, guidance_scale = 15 / 2\<rparr>
                (Tensor [1, 4, 1, 1] [1, 2, 3, 4]) (Tensor [2, 1, 1] [0, 0])
                \<lparr>world = 2, trace = []\<rparr>))) = 2"
proof -
  let ?M = "\<lparr>scheduler = countdown_scheduler 0, unet = ramp_unet, guidance_scale = 15 / 2\<rparr>"
  let ?s = "\<lparr>world = 2 :: nat, trace = [] :: int event list\<rparr>"
  let ?s' = "\<lparr>world = 2 :: nat,
              trace = [GetInitNoiseSigma, GetTimesteps,
                       ScaleModelInput (Tensor [1] [1 :: int]), UnetForward (Tensor [1] [1]),
                       SchedulerStep (Tensor [1] [1]), ScaleModelInput (Tensor [1] [0]),
                       UnetForward (Tensor [1] [0]), SchedulerStep (Tensor [1] [0])]\<rparr>"
  have run: "forward rat_arith ?M (Tensor [1, 4, 1, 1] [1, 2, 3, 4]) (Tensor [2, 1, 1] [0, 0]) ?s =
               (Inr (Tensor [1, 4, 1, 1] [- 30, - 31, - 32, - 33]), ?s')"
    by code_simp
  from loop_runs_once_per_timestep [OF run]
  have "loop_iterations (new_events ?s ?s') = hd (shape (timesteps (scheduler ?M) (world ?s)))"
    by auto
  then have "loop_iterations (new_events ?s ?s') = 2"
    by (simp add: countdown_scheduler_def)
  then show ?thesis
    unfolding run snd_conv .
qed

text \<open>
  The claim C4 as stated fails: the loop does not itself fix the number of passes at the
  configured step count. With a scheduler that sets up one timestep more than it is asked
  for, a module configured with 2 steps makes 3 passes and returns.
\<close>

theorem loop_runs_more_than_configured:
  "fst (bind (Scheduler_init (from_pretrained (test_env 1 NaN)) ''m'' 2 (countdown_scheduler 1))
          (\<lambda>self. forward rat_arith self (Tensor [1, 4, 1, 1] [1, 2, 3, 4])
                     (Tensor [2, 1, 1] [0, 0])) start) =
     Inr (Tensor [1, 4, 1, 1] [- 30, - 31, - 32, - 33])
   \<and> loop_iterations
       (trace (snd (bind (Scheduler_init (from_pretrained (test_env 1 NaN)) ''m'' 2
                            (countdown_scheduler 1))
                      (\<lambda>self. forward rat_arith self (Tensor [1, 4, 1, 1] [1, 2, 3, 4])
                                 (Tensor [2, 1, 1] [0, 0])) start))) = 3"
  by code_simp


section \<open>Lemmas on the scripts\<close>

lemma bind_eq_Inr:
  "bind m f s = (Inr y, s') \<longleftrightarrow> (\<exists>x s1. m s = (Inr x, s1) \<and> f x s1 = (Inr y, s'))"
  by (auto simp: bind_def split: sum.splits prod.splits)

lemma bind_eq_Inl:
  "bind m f s = (Inl e, s') \<longleftrightarrow>
     (m s = (Inl e, s') \<or> (\<exists>x s1. m s = (Inr x, s1) \<and> f x s1 = (Inl e, s')))"
  by (auto simp: bind_def split: sum.splits prod.splits)

lemma call_eq:
  "call ev f s = (r, s') \<longleftrightarrow>
     (\<exists>w'. f (world s) = (r, w') \<and> s' = \<lparr>world = w', trace = trace s @ [ev]\<rparr>)"
  by (auto simp: call_def split: prod.splits)

lemma ret_eq: "ret x s = (r, s') \<longleftrightarrow> r = Inr x \<and> s' = s"
  by (auto simp: ret_def)

lemma raise_eq: "raise e s = (r, s') \<longleftrightarrow> r = Inl e \<and> s' = s"
  by (auto simp: raise_def)

lemma lift_eq: "lift v s = (r, s') \<longleftrightarrow> r = v \<and> s' = s"
  by (auto simp: lift_def)

lemma new_events_append: "trace s' = trace s @ evs \<Longrightarrow> new_events s s' = evs"
  by (simp add: new_events_def)

lemma run_scheduler_ok:
  "run_scheduler E d x e p n t wp s = (Inr out, s') \<Longrightarrow>
   trace s' = trace s @ [VmfbRunner p, AsDeviceArray, AsDeviceArray, InvokeMain]"
  by (auto simp: run_scheduler_def bind_eq_Inr call_eq)

lemma runner_encoder_hidden_states_ok:
  "runner_encoder_hidden_states E name s = (Inr (Some x), s') \<Longrightarrow>
   (name = ''CompVis/stable-diffusion-v1-4'' \<and> trace s' = trace s @ [TorchRand [2, 77, 768]])
   \<or> (name = ''stabilityai/stable-diffusion-2-1-base'' \<and> trace s' = trace s @ [TorchRand [2, 77, 1024]])"
  by (auto simp: runner_encoder_hidden_states_def bind_eq_Inr call_eq ret_eq split: if_splits)

lemma runner_execute_ok:
  assumes "runner_execute E r s = (Inr x, s1)"
  shows "\<exists>c. new_events s s1 =
           [TorchRand [batch_size r, 4, height r div 8, width r div 8], TorchRand c,
            VmfbRunner (vmfb_path r), AsDeviceArray, AsDeviceArray, InvokeMain,
            ToHost, ToHost, ToHost, Print]
         \<and> (hf_model_name r = ''CompVis/stable-diffusion-v1-4'' \<and> c = [2, 77, 768]
            \<or> hf_model_name r = ''stabilityai/stable-diffusion-2-1-base'' \<and> c = [2, 77, 1024])"
proof -
  let ?sizes = "[batch_size r, 4, height r div 8, width r div 8]"
  from assms obtain sample sa ehs sb enc out sc where
    a: "call (TorchRand ?sizes) (torch_rand E ?sizes) s = (Inr sample, sa)"
    and b: "runner_encoder_hidden_states E (hf_model_name r) sa = (Inr ehs, sb)"
    and c: "load_name ''encoder_hidden_states'' ehs sb = (Inr enc, sb)"
    and d: "run_scheduler E (device r) sample enc (vmfb_path r) (hf_model_name r)
              (hf_auth_token r) (external_weight_path r) sb = (Inr out, sc)"
    and e: "trace s1 = trace sc @ [ToHost, ToHost, ToHost, Print]"
    by (auto simp: runner_execute_def Let_def bind_eq_Inr call_eq ret_eq load_name_def raise_eq
        split: option.splits)
  from c have "ehs = Some enc"
    by (auto simp: load_name_def ret_eq raise_eq split: option.splits)
  with b have b': "runner_encoder_hidden_states E (hf_model_name r) sa = (Inr (Some enc), sb)"
    by simp
  from a have ta: "trace sa = trace s @ [TorchRand ?sizes]"
    by (auto simp: call_eq)
  from run_scheduler_ok [OF d]
  have td: "trace sc = trace sb @ [VmfbRunner (vmfb_path r), AsDeviceArray, AsDeviceArray, InvokeMain]" .
  from runner_encoder_hidden_states_ok [OF b'] show ?thesis
  proof
    assume "hf_model_name r = ''CompVis/stable-diffusion-v1-4'' \<and>
            trace sb = trace sa @ [TorchRand [2, 77, 768]]"
    with ta td e show ?thesis
      by (intro exI [of _ "[2, 77, 768]"]) (simp add: new_events_def)
  next
    assume "hf_model_name r = ''stabilityai/stable-diffusion-2-1-base'' \<and>
            trace sb = trace sa @ [TorchRand [2, 77, 1024]]"
    with ta td e show ?thesis
      by (intro exI [of _ "[2, 77, 1024]"]) (simp add: new_events_def)
  qed
qed



lemma float_not_lt_tolerance:
  "\<not> float_lt err tolerance \<longleftrightarrow> float_ge err tolerance \<or> err = NaN"
  by (cases err) (auto simp: tolerance_def)

section \<open>The scripts\<close>


text \<open>
  Claim C10. When the runner is given a model name other than
  \<open>CompVis/stable-diffusion-v1-4\<close> and \<open>stabilityai/stable-diffusion-2-1-base\<close>, the
  conditioning tensor is never assigned: once the latent sample is drawn the run fails
  with a NameError for \<open>encoder_hidden_states\<close>, not with a lookup error. Drawing the sample
  is the only call the run ever makes, so no compiled artifact is loaded or executed, and
  in no case does the run end normally.
\<close>

theorem unbound_conditioning_tensor:
  assumes "hf_model_name r \<noteq> ''CompVis/stable-diffusion-v1-4''"
    and "hf_model_name r \<noteq> ''stabilityai/stable-diffusion-2-1-base''"
  shows "(torch_rand E [batch_size r, 4, height r div 8, width r div 8] (world s) = (Inr sample, w1)
          \<longrightarrow> runner_main E r s =
                (Inl (NameError ''encoder_hidden_states''),
                 \<lparr>world = w1,
                  trace = trace s @ [TorchRand [batch_size r, 4, height r div 8, width r div 8]]\<rparr>))
       \<and> new_events s (snd (runner_main E r s)) =
           [TorchRand [batch_size r, 4, height r div 8, width r div 8]]
       \<and> fst (runner_main E r s) \<noteq> Inr ()"
proof -
  let ?sizes = "[batch_size r, 4, height r div 8, width r div 8]"
  obtain res w where tr: "torch_rand E ?sizes (world s) = (res, w)"
    by (cases "torch_rand E ?sizes (world s)")
  show ?thesis
  proof (cases res)
    case (Inl err)
    with tr show ?thesis
      by (simp add: runner_main_def runner_execute_def Let_def bind_def call_def new_events_def)
  next
    case (Inr x)
    with tr assms show ?thesis
      by (simp add: runner_main_def runner_execute_def Let_def bind_def call_def new_events_def
          runner_encoder_hidden_states_def load_name_def ret_def raise_def)
  qed
qed

text \<open>
  Claim C6, as amended. When the comparison is requested and the reference output and the
  largest absolute error \<open>err\<close> have been computed, the run fails with an AssertionError
  exactly when \<open>err < 9e-3\<close> does not hold, that is when \<open>err \<ge> 9e-3\<close> or \<open>err\<close> is NaN;
  for every \<open>err\<close> strictly below \<open>9e-3\<close> it ends normally.
\<close>

theorem comparison_assertion:
  assumes "get_schedulers E (hf_model_name r) (world s) = (Inr reg, w1)"
    and "reg (scheduler_id r) = Some sched"
    and "run_torch_scheduler E (hf_model_name r) sched (num_inference_steps r) sample enc
           \<lparr>world = w1, trace = trace s @ [Print, GetSchedulers (hf_model_name r)]\<rparr> =
         (Inr torch_output, s2)"
    and "largest_error E torch_output turbine_output (world s2) = (Inr err, w3)"
  shows "fst (compare_with_torch E r sample enc turbine_output s) =
           (if float_lt err tolerance then Inr () else Inl AssertionError)
       \<and> (fst (compare_with_torch E r sample enc turbine_output s) = Inl AssertionError
            \<longleftrightarrow> float_ge err tolerance \<or> err = NaN)"
proof -
  have run: "fst (compare_with_torch E r sample enc turbine_output s) =
           (if float_lt err tolerance then Inr () else Inl AssertionError)"
    using assms
    by (simp add: compare_with_torch_def bind_def call_def lift_def dict_get_def
        assert_tolerance_def ret_def raise_def)
  moreover have "(if float_lt err tolerance then Inr () else Inl AssertionError) = Inl AssertionError
      \<longleftrightarrow> float_ge err tolerance \<or> err = NaN"
    using float_not_lt_tolerance [of err] by auto
  ultimately show ?thesis by simp
qed


lemmas script_defs =
  runner_main_def runner_execute_def runner_encoder_hidden_states_def load_name_def
  run_scheduler_def compare_with_torch_def exporter_main_def export_scheduler_def
  Scheduler_init_def bind_def call_def ret_def raise_def lift_def dict_get_def truthy_def
  test_env_def registry_def runner_defaults_def exporter_defaults_def start_def Let_def
  encoder_hidden_states_sizes_def sample_sizes_def new_events_def




theorem unbound_conditioning_tensor_witness:
  "runner_main (test_env 0 NaN) (runner_defaults\<lparr>hf_model_name := ''runwayml/stable-diffusion-v1-5''\<rparr>)
     start =
   (Inl (NameError ''encoder_hidden_states''), \<lparr>world = 0, trace = [TorchRand [1, 4, 64, 64]]\<rparr>)"
proof -
  let ?r = "runner_defaults\<lparr>hf_model_name := ''runwayml/stable-diffusion-v1-5''\<rparr>"
  have a: "hf_model_name ?r \<noteq> ''CompVis/stable-diffusion-v1-4''"
    and b: "hf_model_name ?r \<noteq> ''stabilityai/stable-diffusion-2-1-base''"
    by simp_all
  have c: "torch_rand (test_env 0 NaN) [batch_size ?r, 4, height ?r div 8, width ?r div 8]
             (world start) = (Inr (ones [1, 4, 64, 64]), 0)"
    by (simp add: test_env_def runner_defaults_def start_def)
  from unbound_conditioning_tensor [OF a b, of "test_env 0 NaN" start "ones [1, 4, 64, 64]" 0] c
  show ?thesis
    by (simp add: runner_defaults_def start_def)
qed


lemma run_torch_scheduler_test:
  "run_torch_scheduler (test_env 0 err) ''CompVis/stable-diffusion-v1-4'' (countdown_scheduler 0) 2
     (Tensor [1, 4, 1, 1] [1, 2, 3, 4]) (Tensor [2, 1, 1] [0, 0])
     \<lparr>world = 0, trace = [Print, GetSchedulers ''CompVis/stable-diffusion-v1-4'']\<rparr> =
   (Inr (Tensor [1, 4, 1, 1] [- 30, - 31, - 32, - 33]),
    \<lparr>world = 2,
     trace = [Print, GetSchedulers ''CompVis/stable-diffusion-v1-4'', SetTimesteps 2,
              UnetFromPretrained ''CompVis/stable-diffusion-v1-4'',
              GetInitNoiseSigma, GetTimesteps,
              ScaleModelInput (Tensor [1] [1]), UnetForward (Tensor [1] [1]),
              SchedulerStep (Tensor [1] [1]), ScaleModelInput (Tensor [1] [0]),
              UnetForward (Tensor [1] [0]), SchedulerStep (Tensor [1] [0])]\<rparr>)"
  by code_simp

theorem comparison_assertion_witness:
  "fst (compare_with_torch (test_env 0 (Finite (1 / 1000))) (runner_defaults\<lparr>num_inference_steps := 2\<rparr>)
          (Tensor [1, 4, 1, 1] [1, 2, 3, 4]) (Tensor [2, 1, 1] [0, 0])
          (Tensor [1, 4, 1, 1] [1, 2, 3, 4]) start) = Inr ()
   \<and> fst (compare_with_torch (test_env 0 (Finite (1 / 100))) (runner_defaults\<lparr>num_inference_steps := 2\<rparr>)
          (Tensor [1, 4, 1, 1] [1, 2, 3, 4]) (Tensor [2, 1, 1] [0, 0])
          (Tensor [1, 4, 1, 1] [1, 2, 3, 4]) start) = Inl AssertionError"
proof -
  let ?r = "runner_defaults\<lparr>num_inference_steps := 2\<rparr>"
  let ?x = "Tensor [1, 4, 1, 1] [1, 2, 3, 4 :: rat]"
  let ?e = "Tensor [2, 1, 1] [0, 0 :: rat]"
  let ?o = "Tensor [1, 4, 1, 1] [- 30, - 31, - 32, - 33 :: rat]"
  let ?s2 = "\<lparr>world = 2 :: nat,
     trace = [Print, GetSchedulers ''CompVis/stable-diffusion-v1-4'', SetTimesteps 2,
              UnetFromPretrained ''CompVis/stable-diffusion-v1-4'',
              GetInitNoiseSigma, GetTimesteps,
              ScaleModelInput (Tensor [1] [1 :: int]), UnetForward (Tensor [1] [1]),
              SchedulerStep (Tensor [1] [1]), ScaleModelInput (Tensor [1] [0]),
              UnetForward (Tensor [1] [0]), SchedulerStep (Tensor [1] [0])]\<rparr>"
  have a: "get_schedulers (test_env 0 err) (hf_model_name ?r) (world start) = (Inr (registry 0), 0)"
    for err by (simp add: test_env_def start_def)
  have b: "registry 0 (scheduler_id ?r) = Some (countdown_scheduler 0)"
    by (simp add: registry_def runner_defaults_def)
  have c: "run_torch_scheduler (test_env 0 err) (hf_model_name ?r) (countdown_scheduler 0)
             (num_inference_steps ?r) ?x ?e
             \<lparr>world = 0, trace = trace start @ [Print, GetSchedulers (hf_model_name ?r)]\<rparr> =
           (Inr ?o, ?s2)" for err
    using run_torch_scheduler_test [of err] by (simp add: runner_defaults_def start_def)
  have d: "largest_error (test_env 0 err) ?o ?x (world ?s2) = (Inr err, 2)" for err
    by (simp add: test_env_def)
  have lo: "float_lt (Finite (1 / 1000)) tolerance"
    by (simp add: tolerance_def)
  have hi: "\<not> float_lt (Finite (1 / 100)) tolerance"
    by (simp add: tolerance_def)
  from comparison_assertion [OF a b c d, of "Finite (1 / 1000)"] lo
       comparison_assertion [OF a b c d, of "Finite (1 / 100)"] hi
  show ?thesis by simp
qed

text \<open>
  The claim C6 as stated fails when the error is NaN: the assertion fails, and the error is
  not greater than or equal to \<open>9e-3\<close>.
\<close>

theorem comparison_fails_on_nan:
  "fst (compare_with_torch (test_env 0 NaN) (runner_defaults\<lparr>num_inference_steps := 2\<rparr>)
          (Tensor [1, 4, 1, 1] [1, 2, 3, 4]) (Tensor [2, 1, 1] [0, 0])
          (Tensor [1, 4, 1, 1] [1, 2, 3, 4]) start) = Inl AssertionError
   \<and> largest_error (test_env 0 NaN) (Tensor [1, 4, 1, 1] [- 30, - 31, - 32, - 33])
       (Tensor [1, 4, 1, 1] [1, 2, 3, 4]) 2 = (Inr NaN, 2)
   \<and> \<not> float_ge NaN tolerance"
proof -
  have "fst (compare_with_torch (test_env 0 NaN) (runner_defaults\<lparr>num_inference_steps := 2\<rparr>)
          (Tensor [1, 4, 1, 1] [1, 2, 3, 4]) (Tensor [2, 1, 1] [0, 0])
          (Tensor [1, 4, 1, 1] [1, 2, 3, 4]) start) = Inl AssertionError"
    by code_simp
  then show ?thesis
    by (simp add: test_env_def)
qed

text \<open>
  Claim C1 at batch size 2: the exporter declares, and the runner draws, a latent sample of
  shape \<open>(2, 4, 64, 64)\<close> and a conditioning tensor of shape \<open>(2, 77, 768)\<close>; the first
  dimension of the conditioning tensor is 2, not twice the batch size.
\<close>

theorem conditioning_batch_is_two:
  "declared_inputs
     (trace (snd (exporter_main (test_env 0 NaN) (exporter_defaults\<lparr>exporter_args.batch_size := 2\<rparr>)
                    start))) =
     [([2, 4, 64, 64], [2, 77, 768])]
   \<and> rand_sizes
       (trace (snd (runner_main (test_env 0 NaN) (runner_defaults\<lparr>batch_size := 2\<rparr>) start))) =
     [[2, 4, 64, 64], [2, 77, 768]]
   \<and> hd [2, 77, 768] \<noteq> 2 * (2 :: int)"
  by (simp add: script_defs countdown_scheduler_def)


section \<open>Lemmas on the events a script adds\<close>

lemma bind_events:
  assumes SP: "\<And>xs. P xs \<Longrightarrow> S xs"
    and app: "\<And>xs ys. P xs \<Longrightarrow> R ys \<Longrightarrow> S (xs @ ys)"
    and m: "\<exists>evs. trace (snd (m s)) = trace s @ evs \<and> P evs"
    and f: "\<And>x s1. \<exists>evs. trace (snd (f x s1)) = trace s1 @ evs \<and> R evs"
  shows "\<exists>evs. trace (snd (bind m f s)) = trace s @ evs \<and> S evs"
proof -
  obtain r s1 where ms: "m s = (r, s1)" by (cases "m s")
  from m ms obtain e1 where e1: "trace s1 = trace s @ e1" "P e1" by auto
  show ?thesis
  proof (cases r)
    case (Inl e)
    with ms have "bind m f s = (Inl e, s1)" by (simp add: bind_Inl)
    with e1 SP [OF e1(2)] show ?thesis by simp
  next
    case (Inr x)
    with ms have b: "bind m f s = f x s1" by (simp add: bind_Inr)
    from f [of x s1] obtain e2 where e2: "trace (snd (f x s1)) = trace s1 @ e2" "R e2"
      by blast
    have "trace (snd (bind m f s)) = trace s @ (e1 @ e2)"
      by (simp add: b e1 e2)
    with app [OF e1(2) e2(2)] show ?thesis by blast
  qed
qed

lemma call_events:
  "P [ev] \<Longrightarrow> \<exists>evs. trace (snd (call ev f s)) = trace s @ evs \<and> P evs"
  by (auto simp: call_def split: prod.splits)

lemma read_events:
  "P [ev] \<Longrightarrow> \<exists>evs. trace (snd (read ev f s)) = trace s @ evs \<and> P evs"
  by (auto simp: read_def)

lemma ret_events: "P [] \<Longrightarrow> \<exists>evs. trace (snd (ret x s)) = trace s @ evs \<and> P evs"
  by (auto simp: ret_def)

lemma raise_events: "P [] \<Longrightarrow> \<exists>evs. trace (snd (raise e s)) = trace s @ evs \<and> P evs"
  by (auto simp: raise_def)

lemma lift_events: "P [] \<Longrightarrow> \<exists>evs. trace (snd (lift r s)) = trace s @ evs \<and> P evs"
  by (auto simp: lift_def)

subsection \<open>Declared input sizes\<close>

lemma declared_inputs_append:
  "declared_inputs (xs @ ys) = declared_inputs xs @ declared_inputs ys"
  by (induction xs rule: declared_inputs.induct) simp_all

lemma bind_declared:
  assumes "\<And>s. \<exists>evs. trace (snd (m s)) = trace s @ evs \<and>
                  list_all (\<lambda>p. p = X) (declared_inputs evs)"
    and "\<And>x s. \<exists>evs. trace (snd (f x s)) = trace s @ evs \<and>
                  list_all (\<lambda>p. p = X) (declared_inputs evs)"
  shows "\<exists>evs. trace (snd (bind m f s)) = trace s @ evs \<and>
               list_all (\<lambda>p. p = X) (declared_inputs evs)"
proof (rule bind_events [where P = "\<lambda>evs. list_all (\<lambda>p. p = X) (declared_inputs evs)"
      and R = "\<lambda>evs. list_all (\<lambda>p. p = X) (declared_inputs evs)"])
  show "\<exists>evs. trace (snd (m s)) = trace s @ evs \<and> list_all (\<lambda>p. p = X) (declared_inputs evs)"
    by (rule assms(1))
  show "\<exists>evs. trace (snd (f x s1)) = trace s1 @ evs \<and>
          list_all (\<lambda>p. p = X) (declared_inputs evs)" for x s1
    by (rule assms(2))
qed (simp_all add: declared_inputs_append)

lemma call_declared:
  "list_all (\<lambda>p. p = X) (declared_inputs [ev]) \<Longrightarrow>
   \<exists>evs. trace (snd (call ev f s)) = trace s @ evs \<and>
         list_all (\<lambda>p. p = X) (declared_inputs evs)"
  by (rule call_events)

lemma ret_declared:
  "\<exists>evs. trace (snd (ret x s)) = trace s @ evs \<and> list_all (\<lambda>p. p = X) (declared_inputs evs)"
  by (rule ret_events) simp

lemma lift_declared:
  "\<exists>evs. trace (snd (lift r s)) = trace s @ evs \<and> list_all (\<lambda>p. p = X) (declared_inputs evs)"
  by (rule lift_events) simp

lemma Scheduler_init_declared:
  "\<exists>evs. trace (snd (Scheduler_init pretrained name n sched s)) = trace s @ evs \<and>
         list_all (\<lambda>p. p = X) (declared_inputs evs)"
  unfolding Scheduler_init_def
  by (intro bind_declared call_declared ret_declared) simp_all

lemma export_scheduler_declared:
  "\<exists>evs. trace (snd (export_scheduler E m name b h w tok ct ew ewp d tt ma up s)) = trace s @ evs \<and>
         list_all (\<lambda>p. p = ([b, 4, h div 8, w div 8], encoder_hidden_states_sizes name))
           (declared_inputs evs)"
proof -
  show ?thesis
    unfolding export_scheduler_def Let_def sample_sizes_def
    by (intro bind_declared call_declared)
      (auto intro!: bind_declared call_declared ret_declared)
qed

lemma exporter_main_declared:
  "\<exists>evs. trace (snd (exporter_main E a s)) = trace s @ evs \<and>
         list_all (\<lambda>p. p = ([exporter_args.batch_size a, 4, exporter_args.height a div 8,
                               exporter_args.width a div 8],
                              encoder_hidden_states_sizes (exporter_args.hf_model_name a)))
           (declared_inputs evs)"
  unfolding exporter_main_def Let_def
  by (intro bind_declared call_declared lift_declared Scheduler_init_declared
      export_scheduler_declared) simp_all

subsection \<open>Sizes drawn at random\<close>

lemma rand_sizes_append: "rand_sizes (xs @ ys) = rand_sizes xs @ rand_sizes ys"
  by (induction xs rule: rand_sizes.induct) simp_all

lemma rand_sizes_loop: "list_all is_loop_event evs \<Longrightarrow> rand_sizes evs = []"
  by (induction evs rule: rand_sizes.induct) simp_all

lemma bind_norand:
  assumes "\<And>s. \<exists>evs. trace (snd (m s)) = trace s @ evs \<and> rand_sizes evs = []"
    and "\<And>x s. \<exists>evs. trace (snd (f x s)) = trace s @ evs \<and> rand_sizes evs = []"
  shows "\<exists>evs. trace (snd (bind m f s)) = trace s @ evs \<and> rand_sizes evs = []"
proof (rule bind_events [where P = "\<lambda>evs. rand_sizes evs = []"
      and R = "\<lambda>evs. rand_sizes evs = []"])
  show "\<exists>evs. trace (snd (m s)) = trace s @ evs \<and> rand_sizes evs = []"
    by (rule assms(1))
  show "\<exists>evs. trace (snd (f x s1)) = trace s1 @ evs \<and> rand_sizes evs = []" for x s1
    by (rule assms(2))
qed (simp_all add: rand_sizes_append)

lemma call_norand:
  "rand_sizes [ev] = [] \<Longrightarrow>
   \<exists>evs. trace (snd (call ev f s)) = trace s @ evs \<and> rand_sizes evs = []"
  by (rule call_events)

lemma read_norand:
  "rand_sizes [ev] = [] \<Longrightarrow>
   \<exists>evs. trace (snd (read ev f s)) = trace s @ evs \<and> rand_sizes evs = []"
  by (rule read_events)

lemma ret_norand: "\<exists>evs. trace (snd (ret x s)) = trace s @ evs \<and> rand_sizes evs = []"
  by (rule ret_events) simp

lemma raise_norand: "\<exists>evs. trace (snd (raise e s)) = trace s @ evs \<and> rand_sizes evs = []"
  by (rule raise_events) simp

lemma lift_norand: "\<exists>evs. trace (snd (lift r s)) = trace s @ evs \<and> rand_sizes evs = []"
  by (rule lift_events) simp

lemma forward_loop_norand:
  "\<exists>evs. trace (snd (forward_loop A self ts latents e s)) = trace s @ evs \<and> rand_sizes evs = []"
  using forward_loop_trace_any [of A self ts latents e s] rand_sizes_loop by blast

lemma forward_runner_norand:
  "\<exists>evs. trace (snd (forward_runner A self latents e s)) = trace s @ evs \<and> rand_sizes evs = []"
  unfolding forward_runner_def Let_def forward_loop_runner_eq
  by (intro bind_norand read_norand lift_norand forward_loop_norand) simp_all

lemma Scheduler_init_runner_norand:
  "\<exists>evs. trace (snd (Scheduler_init_runner pretrained name n sched s)) = trace s @ evs \<and>
         rand_sizes evs = []"
  unfolding Scheduler_init_runner_def
  by (intro bind_norand call_norand ret_norand) simp_all

lemma run_torch_scheduler_norand:
  "\<exists>evs. trace (snd (run_torch_scheduler E name sched n x e s)) = trace s @ evs \<and>
         rand_sizes evs = []"
  unfolding run_torch_scheduler_def
  by (intro bind_norand Scheduler_init_runner_norand forward_runner_norand)

lemma assert_tolerance_norand:
  "\<exists>evs. trace (snd (assert_tolerance err s)) = trace s @ evs \<and> rand_sizes evs = []"
  unfolding assert_tolerance_def
  by (cases "float_lt err tolerance") (simp_all add: ret_norand raise_norand)

lemma compare_with_torch_norand:
  "\<exists>evs. trace (snd (compare_with_torch E r x e out s)) = trace s @ evs \<and> rand_sizes evs = []"
  unfolding compare_with_torch_def
  by (intro bind_norand call_norand lift_norand run_torch_scheduler_norand
      assert_tolerance_norand) simp_all

lemma run_scheduler_norand:
  "\<exists>evs. trace (snd (run_scheduler E d x e p n t wp s)) = trace s @ evs \<and> rand_sizes evs = []"
  unfolding run_scheduler_def
  by (intro bind_norand call_norand) simp_all

lemma load_name_norand:
  "\<exists>evs. trace (snd (load_name n v s)) = trace s @ evs \<and> rand_sizes evs = []"
  unfolding load_name_def
  by (cases v) (simp_all add: ret_norand raise_norand)

lemma runner_encoder_hidden_states_rand:
  "\<exists>evs. trace (snd (runner_encoder_hidden_states E name s)) = trace s @ evs \<and>
         (rand_sizes evs = [] \<or> rand_sizes evs = [encoder_hidden_states_sizes name])"
  by (auto simp: runner_encoder_hidden_states_def encoder_hidden_states_sizes_def bind_def
      call_def ret_def split: sum.splits prod.splits)

lemma runner_main_rand:
  "\<exists>evs. trace (snd (runner_main E r s)) = trace s @ evs \<and>
     (\<exists>cs. rand_sizes evs = [batch_size r, 4, height r div 8, width r div 8] # cs \<and>
           (cs = [] \<or> cs = [encoder_hidden_states_sizes (hf_model_name r)]))"
proof -
  let ?X = "[batch_size r, 4, height r div 8, width r div 8]"
  let ?Y = "encoder_hidden_states_sizes (hf_model_name r)"
  let ?Q = "\<lambda>evs. rand_sizes evs = [] \<or> rand_sizes evs = [?Y]"
  let ?N = "\<lambda>evs. rand_sizes evs = []"
  let ?S = "\<lambda>evs. \<exists>cs. rand_sizes evs = ?X # cs \<and> (cs = [] \<or> cs = [?Y])"
  have tail: "\<exists>evs. trace (snd (
       bind (load_name ''encoder_hidden_states'' enc)
         (\<lambda>encoder_hidden_states.
       bind (run_scheduler E (device r) sample encoder_hidden_states (vmfb_path r)
               (hf_model_name r) (hf_auth_token r) (external_weight_path r))
         (\<lambda>turbine_output.
       bind (call ToHost (to_host E turbine_output))
         (\<lambda>_.
       bind (call ToHost (to_host E turbine_output))
         (\<lambda>_.
       bind (call ToHost (to_host E turbine_output))
         (\<lambda>_.
       bind (call Print (\<lambda>w. (Inr (), w)))
         (\<lambda>_. ret (sample, encoder_hidden_states, turbine_output))))))) s1)) = trace s1 @ evs \<and> ?N evs"
    for enc sample s1
    by (intro bind_norand call_norand ret_norand load_name_norand run_scheduler_norand)
      simp_all
  have rest: "\<exists>evs. trace (snd (
       bind (runner_encoder_hidden_states E (hf_model_name r))
         (\<lambda>encoder_hidden_states.
       bind (load_name ''encoder_hidden_states'' encoder_hidden_states)
         (\<lambda>encoder_hidden_states.
       bind (run_scheduler E (device r) sample encoder_hidden_states (vmfb_path r)
               (hf_model_name r) (hf_auth_token r) (external_weight_path r))
         (\<lambda>turbine_output.
       bind (call ToHost (to_host E turbine_output))
         (\<lambda>_.
       bind (call ToHost (to_host E turbine_output))
         (\<lambda>_.
       bind (call ToHost (to_host E turbine_output))
         (\<lambda>_.
       bind (call Print (\<lambda>w. (Inr (), w)))
         (\<lambda>_. ret (sample, encoder_hidden_states, turbine_output)))))))) s1)) = trace s1 @ evs \<and> ?Q evs"
    for sample s1
  proof (rule bind_events [where P = ?Q and R = ?N])
    show "\<exists>evs. trace (snd (runner_encoder_hidden_states E (hf_model_name r) s1)) = trace s1 @ evs
            \<and> ?Q evs"
      by (rule runner_encoder_hidden_states_rand)
  qed (simp_all add: rand_sizes_append tail)
  have exec: "\<exists>evs. trace (snd (runner_execute E r s0)) = trace s0 @ evs \<and> ?S evs" for s0
    unfolding runner_execute_def Let_def
  proof (rule bind_events [where P = "\<lambda>evs. evs = [TorchRand ?X]" and R = ?Q])
    show "\<exists>evs. trace (snd (call (TorchRand ?X) (torch_rand E ?X) s0)) = trace s0 @ evs
            \<and> evs = [TorchRand ?X]"
      by (rule call_events) simp
  qed (simp_all add: rest)
  have cmp: "\<exists>evs. trace (snd ((case x of (sample, encoder_hidden_states, turbine_output) \<Rightarrow>
               if compare_vs_torch r
               then compare_with_torch E r sample encoder_hidden_states turbine_output
               else ret ()) s1)) = trace s1 @ evs \<and> ?N evs" for x s1
    by (cases x) (simp add: compare_with_torch_norand ret_norand)
  show ?thesis
    unfolding runner_main_def
  proof (rule bind_events [where P = ?S and R = ?N])
    show "\<exists>evs. trace (snd (runner_execute E r s)) = trace s @ evs \<and> ?S evs"
      by (rule exec)
    show "\<exists>evs. trace (snd ((case x of (sample, encoder_hidden_states, turbine_output) \<Rightarrow>
               if compare_vs_torch r
               then compare_with_torch E r sample encoder_hidden_states turbine_output
               else ret ()) s1)) = trace s1 @ evs \<and> ?N evs" for x s1
      by (rule cmp)
  qed (simp_all add: rand_sizes_append)
qed


lemma compare_branch_norand:
  "\<exists>evs. trace (snd ((case x of (sample, encoder_hidden_states, turbine_output) \<Rightarrow>
               if compare_vs_torch r
               then compare_with_torch E r sample encoder_hidden_states turbine_output
               else ret ()) st)) = trace st @ evs \<and> rand_sizes evs = []"
  by (cases x) (simp add: compare_with_torch_norand ret_norand)

lemma runner_main_ok:
  assumes "runner_main E r s = (Inr u, s')"
  shows "rand_sizes (new_events s s') =
           [[batch_size r, 4, height r div 8, width r div 8],
            encoder_hidden_states_sizes (hf_model_name r)]"
proof -
  from assms obtain x s1 where
    ex: "runner_execute E r s = (Inr x, s1)"
    and rest: "(case x of (sample, encoder_hidden_states, turbine_output) \<Rightarrow>
               if compare_vs_torch r
               then compare_with_torch E r sample encoder_hidden_states turbine_output
               else ret ()) s1 = (Inr u, s')"
    by (auto simp: runner_main_def bind_eq_Inr)
  from runner_execute_ok [OF ex] obtain c where
    c: "new_events s s1 =
           [TorchRand [batch_size r, 4, height r div 8, width r div 8], TorchRand c,
            VmfbRunner (vmfb_path r), AsDeviceArray, AsDeviceArray, InvokeMain,
            ToHost, ToHost, ToHost, Print]"
    and name: "hf_model_name r = ''CompVis/stable-diffusion-v1-4'' \<and> c = [2, 77, 768]
            \<or> hf_model_name r = ''stabilityai/stable-diffusion-2-1-base'' \<and> c = [2, 77, 1024]"
    by blast
  from name have cy: "c = encoder_hidden_states_sizes (hf_model_name r)"
    by (auto simp: encoder_hidden_states_sizes_def)
  from runner_main_rand [of E r s] assms obtain evs0 where
    t0: "trace s' = trace s @ evs0" by auto
  from compare_branch_norand [where x = x and r = r and E = E and st = s1] rest obtain evs where
    t1: "trace s' = trace s1 @ evs" and n: "rand_sizes evs = []" by auto
  have "length (trace s) \<le> length (trace s1)"
    using t0 t1 c by (cases "length (trace s) \<le> length (trace s1)") (auto simp: new_events_def)
  then have "new_events s s' = new_events s s1 @ evs"
    using t1 by (simp add: new_events_def)
  then show ?thesis
    using c cy n by (simp add: rand_sizes_append)
qed

lemma export_scheduler_ok:
  assumes "export_scheduler E m name b h w tok ct ew ewp d tt ma up s = (Inr y, s')"
  shows "declared_inputs (new_events s s') =
           [([b, 4, h div 8, w div 8], encoder_hidden_states_sizes name)]"
  using assms
  by (auto simp: export_scheduler_def Let_def bind_eq_Inr call_eq ret_eq sample_sizes_def
      new_events_def split: if_splits)

lemma Scheduler_init_ok:
  assumes "Scheduler_init pretrained name n sched s = (Inr m, s')"
  shows "trace s' = trace s @ [SetTimesteps n, UnetFromPretrained name]"
  using assms
  by (auto simp: Scheduler_init_def bind_eq_Inr call_eq ret_eq)

lemma exporter_main_ok:
  assumes "exporter_main E a s = (Inr u, s')"
  shows "declared_inputs (new_events s s') =
           [([exporter_args.batch_size a, 4, exporter_args.height a div 8,
              exporter_args.width a div 8],
             encoder_hidden_states_sizes (exporter_args.hf_model_name a))]"
proof -
  let ?name = "exporter_args.hf_model_name a"
  from assms obtain reg s1 sched s2 m s3 y s4 where
    a: "call (GetSchedulers ?name) (get_schedulers E ?name) s = (Inr reg, s1)"
    and b: "lift (dict_get reg (exporter_args.scheduler_id a)) s1 = (Inr sched, s2)"
    and c: "Scheduler_init (from_pretrained E) ?name (exporter_args.num_inference_steps a)
              sched s2 = (Inr m, s3)"
    and d: "export_scheduler E m ?name (exporter_args.batch_size a) (exporter_args.height a)
              (exporter_args.width a) (exporter_args.hf_auth_token a)
              (exporter_args.compile_to a) (exporter_args.external_weights a)
              (exporter_args.external_weight_path a) (exporter_args.device a)
              (exporter_args.iree_target_triple a) (exporter_args.vulkan_max_allocation a)
              False s3 = (Inr y, s4)"
    and e: "trace s' = trace s4 @ [WriteFile (create_safe_name E ?name ''-scheduler'' @ ''.mlir''),
              Print]"
    by (auto simp: exporter_main_def Let_def bind_eq_Inr call_eq)
  from a have t1: "trace s1 = trace s @ [GetSchedulers ?name]"
    by (auto simp: call_eq)
  from b have t2: "s2 = s1"
    by (simp add: lift_def)
  note t3 = Scheduler_init_ok [OF c]
  from export_scheduler_declared [of E m ?name "exporter_args.batch_size a"
      "exporter_args.height a" "exporter_args.width a" "exporter_args.hf_auth_token a"
      "exporter_args.compile_to a" "exporter_args.external_weights a"
      "exporter_args.external_weight_path a" "exporter_args.device a"
      "exporter_args.iree_target_triple a" "exporter_args.vulkan_max_allocation a" False s3] d
  obtain evs where t4: "trace s4 = trace s3 @ evs" by auto
  from export_scheduler_ok [OF d] t4 have d4: "declared_inputs evs =
           [([exporter_args.batch_size a, 4, exporter_args.height a div 8,
              exporter_args.width a div 8], encoder_hidden_states_sizes ?name)]"
    by (simp add: new_events_def)
  have "new_events s s' = [GetSchedulers ?name] @
          [SetTimesteps (exporter_args.num_inference_steps a), UnetFromPretrained ?name] @ evs @
          [WriteFile (create_safe_name E ?name ''-scheduler'' @ ''.mlir''), Print]"
    using t1 t2 t3 t4 e by (simp add: new_events_def)
  then show ?thesis
    using d4 by (simp add: declared_inputs_append)
qed

lemma encoder_hidden_states_sizes_explicit:
  "encoder_hidden_states_sizes name =
     [2, 77, if name = ''stabilityai/stable-diffusion-2-1-base'' then 1024 else 768]"
  by (simp add: encoder_hidden_states_sizes_def)

section \<open>Height and width\<close>

text \<open>
  Claim C8. Take any configuration of the exporter and any of the runner, and set height
  and width to \<open>h\<close> and \<open>w\<close>, both multiples of 8. Whatever the collaborators do, every
  input declaration the exporter makes has the latent sample of sizes
  \<open>(batch_size, 4, h div 8, w div 8)\<close> and the conditioning tensor of the sizes
  \<open>(2, 77, E)\<close> that the model name alone decides (\<open>E\<close> is 1024 for
  stabilityai/stable-diffusion-2-1-base and 768 otherwise), and a run that ends normally
  makes exactly one declaration. The first tensor the runner draws has the sizes
  \<open>(batch_size, 4, h div 8, w div 8)\<close>; it draws at most one more, of the sizes \<open>(2, 77, E)\<close>
  decided by the model name alone, and exactly these two in a run that ends normally.
  So height and width reach the last two sizes of the latent sample and nothing else, and
  these are exactly an eighth of \<open>h\<close> and of \<open>w\<close>: \<open>8 * (h div 8) = h\<close> and \<open>8 * (w div 8) = w\<close>.
\<close>

theorem height_width_frame:
  assumes "8 dvd h" and "8 dvd w"
  shows "list_all (\<lambda>p. p = ([exporter_args.batch_size a, 4, h div 8, w div 8],
                             [2, 77, if exporter_args.hf_model_name a =
                                ''stabilityai/stable-diffusion-2-1-base''
                              then 1024 else 768]))
           (declared_inputs (new_events s (snd (exporter_main E
              (a\<lparr>exporter_args.height := h, exporter_args.width := w\<rparr>) s))))
       \<and> (fst (exporter_main E (a\<lparr>exporter_args.height := h, exporter_args.width := w\<rparr>) s) = Inr ()
            \<longrightarrow> declared_inputs (new_events s (snd (exporter_main E
                   (a\<lparr>exporter_args.height := h, exporter_args.width := w\<rparr>) s))) =
                 [([exporter_args.batch_size a, 4, h div 8, w div 8],
                   [2, 77, if exporter_args.hf_model_name a =
                                ''stabilityai/stable-diffusion-2-1-base''
                              then 1024 else 768])])
       \<and> (\<exists>cs. rand_sizes (new_events t (snd (runner_main E' (r\<lparr>height := h, width := w\<rparr>) t))) =
                  [batch_size r, 4, h div 8, w div 8] # cs
                \<and> (cs = [] \<or> cs = [[2, 77, if hf_model_name r = ''stabilityai/stable-diffusion-2-1-base''
                              then 1024 else 768]]))
       \<and> (fst (runner_main E' (r\<lparr>height := h, width := w\<rparr>) t) = Inr ()
            \<longrightarrow> rand_sizes (new_events t (snd (runner_main E' (r\<lparr>height := h, width := w\<rparr>) t))) =
                 [[batch_size r, 4, h div 8, w div 8],
                  [2, 77, if hf_model_name r = ''stabilityai/stable-diffusion-2-1-base''
                              then 1024 else 768]])
       \<and> 8 * (h div 8) = h \<and> 8 * (w div 8) = w"
proof -
  let ?a = "a\<lparr>exporter_args.height := h, exporter_args.width := w\<rparr>"
  let ?r = "r\<lparr>height := h, width := w\<rparr>"
  from exporter_main_declared [of E ?a s] obtain evs where
    "trace (snd (exporter_main E ?a s)) = trace s @ evs"
    "list_all (\<lambda>p. p = ([exporter_args.batch_size a, 4, h div 8, w div 8],
                             encoder_hidden_states_sizes (exporter_args.hf_model_name a)))
           (declared_inputs evs)"
    by auto
  then have p1: "list_all (\<lambda>p. p = ([exporter_args.batch_size a, 4, h div 8, w div 8],
                             encoder_hidden_states_sizes (exporter_args.hf_model_name a)))
           (declared_inputs (new_events s (snd (exporter_main E ?a s))))"
    by (simp add: new_events_def)
  have p2: "declared_inputs (new_events s (snd (exporter_main E ?a s))) =
                 [([exporter_args.batch_size a, 4, h div 8, w div 8],
                   encoder_hidden_states_sizes (exporter_args.hf_model_name a))]"
    if "fst (exporter_main E ?a s) = Inr ()"
  proof -
    from that have "exporter_main E ?a s = (Inr (), snd (exporter_main E ?a s))"
      by (cases "exporter_main E ?a s") simp
    from exporter_main_ok [OF this] show ?thesis by simp
  qed
  from runner_main_rand [of E' ?r t] obtain evs' cs where
    "trace (snd (runner_main E' ?r t)) = trace t @ evs'"
    "rand_sizes evs' = [batch_size r, 4, h div 8, w div 8] # cs"
    "cs = [] \<or> cs = [encoder_hidden_states_sizes (hf_model_name r)]"
    by auto
  then have p3: "\<exists>cs. rand_sizes (new_events t (snd (runner_main E' ?r t))) =
                  [batch_size r, 4, h div 8, w div 8] # cs
                \<and> (cs = [] \<or> cs = [encoder_hidden_states_sizes (hf_model_name r)])"
    by (simp add: new_events_def)
  have p4: "rand_sizes (new_events t (snd (runner_main E' ?r t))) =
                 [[batch_size r, 4, h div 8, w div 8],
                  encoder_hidden_states_sizes (hf_model_name r)]"
    if "fst (runner_main E' ?r t) = Inr ()"
  proof -
    from that have "runner_main E' ?r t = (Inr (), snd (runner_main E' ?r t))"
      by (cases "runner_main E' ?r t") simp
    from runner_main_ok [OF this] show ?thesis by simp
  qed
  from assms have p5: "8 * (h div 8) = h" "8 * (w div 8) = w"
    by simp_all
  from p1 p2 p3 p4 p5 show ?thesis
    unfolding encoder_hidden_states_sizes_explicit by blast
qed

text \<open>A run of both scripts at height 256 and width 1024, in the small environment.\<close>

theorem height_width_frame_witness:
  "(8 :: int) dvd 256 \<and> (8 :: int) dvd 1024
   \<and> fst (exporter_main (test_env 0 NaN)
            (exporter_defaults\<lparr>exporter_args.height := 256, exporter_args.width := 1024\<rparr>)
            start) = Inr ()
   \<and> declared_inputs (new_events start (snd (exporter_main (test_env 0 NaN)
            (exporter_defaults\<lparr>exporter_args.height := 256, exporter_args.width := 1024\<rparr>)
            start))) = [([1, 4, 32, 128], [2, 77, 768])]
   \<and> fst (runner_main (test_env 0 NaN)
            (runner_defaults\<lparr>compare_vs_torch := False, height := 256, width := 1024\<rparr>)
            start) = Inr ()
   \<and> rand_sizes (new_events start (snd (runner_main (test_env 0 NaN)
            (runner_defaults\<lparr>compare_vs_torch := False, height := 256, width := 1024\<rparr>)
            start))) = [[1, 4, 32, 128], [2, 77, 768]]"
proof -
  let ?E = "test_env 0 NaN"
  let ?a = "exporter_defaults\<lparr>exporter_args.height := 256, exporter_args.width := 1024\<rparr>"
  let ?r = "runner_defaults\<lparr>compare_vs_torch := False, height := 256, width := 1024\<rparr>"
  have ex: "fst (exporter_main ?E ?a start) = Inr ()"
    by (simp add: script_defs countdown_scheduler_def)
  have run: "fst (runner_main ?E ?r start) = Inr ()"
    by (simp add: script_defs)
  have a: "exporter_args.batch_size exporter_defaults = 1"
    "exporter_args.hf_model_name exporter_defaults = ''CompVis/stable-diffusion-v1-4''"
    by (simp_all add: exporter_defaults_def)
  have r: "batch_size (runner_defaults\<lparr>compare_vs_torch := False\<rparr>) = 1"
    "hf_model_name (runner_defaults\<lparr>compare_vs_torch := False\<rparr>) = ''CompVis/stable-diffusion-v1-4''"
    by (simp_all add: runner_defaults_def)
  have d: "(8 :: int) dvd 256" "(8 :: int) dvd 1024"
    by simp_all
  from height_width_frame [where h = 256 and w = 1024 and a = exporter_defaults and s = start
      and E = ?E and E' = ?E and r = "runner_defaults\<lparr>compare_vs_torch := False\<rparr>"
      and t = start, OF d]
  show ?thesis
    using ex run by (simp add: a r encoder_hidden_states_sizes_def)
qed

end
